theory Spec2Isabelle
  imports Main "HOL-Library.Word" "HOL-Library.AList"
begin

section \<open>Errors\<close>

text \<open>
  The package's error values (the \<open>var (...)\<close> block at the end of gpiod.go), the error
  codes the kernel answers with (\<open>Errno\<close>, surfaced verbatim) and the Go runtime panic
  of an index out of range, which no caller of the package recovers from.
\<close>

datatype error =
    ErrClosed
  | ErrInvalidOffset
  | ErrNotCharacterDevice
  | ErrLineNotFound
  | ErrPermissionDenied
  | Errno nat
  | Panic

definition EINVAL :: error where
  "EINVAL = Errno 22"

section \<open>The uapi package\<close>

text \<open>
  Modelled from the spec: the uapi package (the wire structs, the flag types, the value
  bitmap and the ioctl wrappers) is not among the sources; only its callers in gpiod.go
  and the tests of its ABI v1 half are. Flag words are sets of named flags, enumerations
  are datatypes whose first constructor is the zero value gpiod.go compares against, and
  fixed-size arrays are lists of that size.
\<close>

datatype LineFlagV2 =
    LineFlagV2ActiveLow
  | LineFlagV2Direction
  | LineFlagV2Drive
  | LineFlagV2Bias
  | LineFlagV2EdgeDetection
  | LineFlagV2Debounce

datatype LineDirection = LineDirectionInput | LineDirectionOutput

datatype LineDrive = LineDrivePushPull | LineDriveOpenDrain | LineDriveOpenSource

datatype LineBias = LineBiasDisabled | LineBiasPullUp | LineBiasPullDown

datatype LineEdge = LineEdgeNone | LineEdgeRising | LineEdgeFalling | LineEdgeBoth

datatype LineFlag =
    LineFlagRequested
  | LineFlagIsOut
  | LineFlagActiveLow
  | LineFlagOpenDrain
  | LineFlagOpenSource
  | LineFlagPullUp
  | LineFlagPullDown
  | LineFlagBiasDisable

datatype HandleFlag =
    HandleRequestInput
  | HandleRequestOutput
  | HandleRequestActiveLow
  | HandleRequestOpenDrain
  | HandleRequestOpenSource
  | HandleRequestPullUp
  | HandleRequestPullDown
  | HandleRequestBiasDisable

datatype EventFlag = EventRequestRisingEdge | EventRequestFallingEdge

definition EventRequestBothEdges :: "EventFlag set" where
  "EventRequestBothEdges = {EventRequestRisingEdge, EventRequestFallingEdge}"

text \<open>
  Modelled from the spec: the per-request maximum number of lines ("a fixed maximum
  number of lines per request"), which is the size of the offset and value arrays of the
  request structs of both ABI generations.
\<close>

definition HandlesMax :: nat where
  "HandlesMax = 64"

definition LinesMax :: nat where
  "LinesMax = 64"

type_synonym HandleData = "8 word list"

definition HandleData0 :: HandleData where
  "HandleData0 = replicate HandlesMax 0"

text \<open>
  Modelled from the spec: \<open>uapi.LineValues\<close>, the ABI v2 value encoding, as the set of
  the line indexes whose active state is 1. \<open>Set\<close> stores an active state (any nonzero
  value is active), \<open>Get\<close> reads it back as 0 or 1, and \<open>NewLineValues\<close> builds the
  encoding of a sequence of values, in order.
\<close>

type_synonym LineValues = "nat set"

definition LineValues_Set :: "LineValues \<Rightarrow> nat \<Rightarrow> int \<Rightarrow> LineValues" where
  "LineValues_Set lv i v =
     (if LinesMax \<le> i then lv else if v = 0 then lv - {i} else insert i lv)"

definition LineValues_Get :: "LineValues \<Rightarrow> nat \<Rightarrow> int" where
  "LineValues_Get lv i = (if i \<in> lv then 1 else 0)"

definition NewLineValues :: "int list \<Rightarrow> LineValues" where
  "NewLineValues vs = foldl (\<lambda>lv (i, v). LineValues_Set lv i v) {} (enumerate 0 vs)"

text \<open>
  Modelled from the spec: \<open>uapi.BytesToString\<close> ("truncate at first zero byte, treat as
  empty if entirely zero").
\<close>

definition BytesToString :: "8 word list \<Rightarrow> string" where
  "BytesToString bs = map (\<lambda>b. char_of (unat b)) (takeWhile (\<lambda>b. b \<noteq> 0) bs)"

record LineConfig =
  Flags :: "LineFlagV2 set"
  Direction :: LineDirection
  Drive :: LineDrive
  Bias :: LineBias
  EdgeDetection :: LineEdge
  Debounce :: "32 word"

definition LineConfig0 :: LineConfig where
  "LineConfig0 = \<lparr>Flags = {}, Direction = LineDirectionInput, Drive = LineDrivePushPull,
     Bias = LineBiasDisabled, EdgeDetection = LineEdgeNone, Debounce = 0\<rparr>"

record uapi_LineConfig =
  lc_Flags :: "LineFlagV2 set"
  lc_Direction :: LineDirection
  lc_Drive :: LineDrive
  lc_Bias :: LineBias
  lc_EdgeDetection :: LineEdge
  lc_Debounce :: "32 word"
  lc_Values :: LineValues

record uapi_ChipInfo =
  ci_Name :: "8 word list"
  ci_Label :: "8 word list"
  ci_Lines :: "32 word"

record uapi_LineInfo =
  li_Offset :: "32 word"
  li_Flags :: "LineFlag set"
  li_Name :: "8 word list"
  li_Consumer :: "8 word list"

record uapi_LineInfoV2 =
  li2_Offset :: "32 word"
  li2_Name :: "8 word list"
  li2_Consumer :: "8 word list"
  li2_Config :: uapi_LineConfig

record uapi_LineRequest =
  lr_Offsets :: "32 word list"
  lr_Consumer :: string
  lr_Config :: uapi_LineConfig
  lr_Lines :: "32 word"

record uapi_EventRequest =
  er_Offset :: "32 word"
  er_HandleFlags :: "HandleFlag set"
  er_EventFlags :: "EventFlag set"
  er_Consumer :: string

record uapi_HandleRequest =
  hr_Offsets :: "32 word list"
  hr_Flags :: "HandleFlag set"
  hr_DefaultValues :: HandleData
  hr_Consumer :: string
  hr_Lines :: "32 word"

record uapi_HandleConfig =
  hc_Flags :: "HandleFlag set"
  hc_DefaultValues :: HandleData

section \<open>The kernel and the environment\<close>

text \<open>
  Every call that leaves the package is a \<open>kcall\<close>: the ioctls of the two ABI
  generations, opening and closing a descriptor, and starting or stopping a watcher
  (watcher.go is not among the sources; only whether its constructors fail matters here).
  Descriptors are natural numbers, event and info-change handlers are opaque identities.
\<close>

datatype kcall =
    SysOpen string
  | SysClose nat
  | IoctlGetChipInfo nat
  | IoctlGetLineInfo nat int
  | IoctlGetLineInfoV2 nat int
  | IoctlWatchLineInfo nat "32 word"
  | IoctlWatchLineInfoV2 nat "32 word"
  | IoctlUnwatchLineInfo nat "32 word"
  | IoctlGetLine nat uapi_LineRequest
  | IoctlGetLineEvent nat uapi_EventRequest
  | IoctlGetLineHandle nat uapi_HandleRequest
  | IoctlSetLineConfig nat uapi_HandleConfig
  | IoctlSetLineConfigV2 nat uapi_LineConfig
  | IoctlGetLineValues nat
  | IoctlGetLineValuesV2 nat
  | IoctlSetLineValues nat HandleData
  | IoctlSetLineValuesV2 nat LineValues
  | NewWatcher nat "nat option"
  | NewWatcherV1 "(nat \<times> int) list" "nat option"
  | NewInfoWatcher nat int
  | WatcherClose
  | InfoWatcherClose

text \<open>
  Modelled from the spec: the kernel boundary of section 6. The kernel keeps the log of
  the calls it received (\<open>k_calls\<close>, oldest first), answers each call with an error
  code or success (\<open>k_res\<close>), holds the active state of the lines behind each request
  descriptor, by position in the request (\<open>k_values\<close>), hands out fresh descriptors
  (\<open>k_nextfd\<close>) and publishes the chip and line information. \<open>k_ischip\<close> is the
  verdict of the device-identity check and \<open>k_pid\<close> the process id.
\<close>

record kernel =
  k_calls :: "kcall list"
  k_res :: "kcall \<Rightarrow> nat option"
  k_values :: "nat \<Rightarrow> nat \<Rightarrow> bool"
  k_nextfd :: nat
  k_chipinfo :: uapi_ChipInfo
  k_lineinfo :: "int \<Rightarrow> uapi_LineInfo"
  k_lineinfoV2 :: "int \<Rightarrow> uapi_LineInfoV2"
  k_ischip :: "string \<Rightarrow> error option"
  k_pid :: nat

definition klog :: "kernel \<Rightarrow> kcall \<Rightarrow> kernel" where
  "klog k c = k\<lparr>k_calls := k_calls k @ [c]\<rparr>"

definition kerr :: "kernel \<Rightarrow> kcall \<Rightarrow> error option" where
  "kerr k c = map_option Errno (k_res k c)"

text \<open>A call with no result but its error code, and no effect but on the log.\<close>

definition uapi_plain :: "kernel \<Rightarrow> kcall \<Rightarrow> kernel \<times> error option" where
  "uapi_plain k c = (klog k c, kerr k c)"

text \<open>A call that returns a fresh descriptor on success.\<close>

definition uapi_newfd :: "kernel \<Rightarrow> kcall \<Rightarrow> kernel \<times> error option \<times> nat" where
  "uapi_newfd k c =
     (case kerr k c of
        Some e \<Rightarrow> (klog k c, Some e, 0)
      | None \<Rightarrow> ((klog k c)\<lparr>k_nextfd := Suc (k_nextfd k)\<rparr>, None, k_nextfd k))"

definition uapi_GetLineValues :: "kernel \<Rightarrow> nat \<Rightarrow> kernel \<times> error option \<times> HandleData" where
  "uapi_GetLineValues k fd =
     (case kerr k (IoctlGetLineValues fd) of
        Some e \<Rightarrow> (klog k (IoctlGetLineValues fd), Some e, HandleData0)
      | None \<Rightarrow> (klog k (IoctlGetLineValues fd), None,
          map (\<lambda>i. if k_values k fd i then 1 else 0) [0..<HandlesMax]))"

definition uapi_GetLineValuesV2 :: "kernel \<Rightarrow> nat \<Rightarrow> kernel \<times> error option \<times> LineValues" where
  "uapi_GetLineValuesV2 k fd =
     (case kerr k (IoctlGetLineValuesV2 fd) of
        Some e \<Rightarrow> (klog k (IoctlGetLineValuesV2 fd), Some e, {})
      | None \<Rightarrow> (klog k (IoctlGetLineValuesV2 fd), None,
          set (filter (k_values k fd) [0..<LinesMax])))"

definition uapi_SetLineValues :: "kernel \<Rightarrow> nat \<Rightarrow> HandleData \<Rightarrow> kernel \<times> error option" where
  "uapi_SetLineValues k fd hdata =
     (case kerr k (IoctlSetLineValues fd hdata) of
        Some e \<Rightarrow> (klog k (IoctlSetLineValues fd hdata), Some e)
      | None \<Rightarrow> ((klog k (IoctlSetLineValues fd hdata))
          \<lparr>k_values := (k_values k)(fd :=
             (\<lambda>i. i < length hdata \<and> hdata ! i \<noteq> 0))\<rparr>, None))"

definition uapi_SetLineValuesV2 :: "kernel \<Rightarrow> nat \<Rightarrow> LineValues \<Rightarrow> kernel \<times> error option" where
  "uapi_SetLineValuesV2 k fd lv =
     (case kerr k (IoctlSetLineValuesV2 fd lv) of
        Some e \<Rightarrow> (klog k (IoctlSetLineValuesV2 fd lv), Some e)
      | None \<Rightarrow> ((klog k (IoctlSetLineValuesV2 fd lv))
          \<lparr>k_values := (k_values k)(fd := (\<lambda>i. i \<in> lv))\<rparr>, None))"

text \<open>
  The remaining ioctl wrappers. A query answers with the published information; a
  request for lines answers with a fresh descriptor, and a request for output lines
  leaves the requested default values on them.
\<close>

definition uapi_GetChipInfo :: "kernel \<Rightarrow> nat \<Rightarrow> kernel \<times> error option \<times> uapi_ChipInfo" where
  "uapi_GetChipInfo k fd =
     (klog k (IoctlGetChipInfo fd), kerr k (IoctlGetChipInfo fd), k_chipinfo k)"

definition uapi_GetLineInfo :: "kernel \<Rightarrow> nat \<Rightarrow> int \<Rightarrow> kernel \<times> error option \<times> uapi_LineInfo" where
  "uapi_GetLineInfo k fd offset =
     (klog k (IoctlGetLineInfo fd offset), kerr k (IoctlGetLineInfo fd offset),
      k_lineinfo k offset)"

definition uapi_GetLineInfoV2 :: "kernel \<Rightarrow> nat \<Rightarrow> int \<Rightarrow> kernel \<times> error option \<times> uapi_LineInfoV2" where
  "uapi_GetLineInfoV2 k fd offset =
     (klog k (IoctlGetLineInfoV2 fd offset), kerr k (IoctlGetLineInfoV2 fd offset),
      k_lineinfoV2 k offset)"

definition uapi_WatchLineInfo :: "kernel \<Rightarrow> nat \<Rightarrow> 32 word \<Rightarrow> kernel \<times> error option \<times> uapi_LineInfo" where
  "uapi_WatchLineInfo k fd off =
     (klog k (IoctlWatchLineInfo fd off), kerr k (IoctlWatchLineInfo fd off),
      k_lineinfo k (uint off))"

definition uapi_WatchLineInfoV2 :: "kernel \<Rightarrow> nat \<Rightarrow> 32 word \<Rightarrow> kernel \<times> error option \<times> uapi_LineInfoV2" where
  "uapi_WatchLineInfoV2 k fd off =
     (klog k (IoctlWatchLineInfoV2 fd off), kerr k (IoctlWatchLineInfoV2 fd off),
      k_lineinfoV2 k (uint off))"

definition uapi_UnwatchLineInfo :: "kernel \<Rightarrow> nat \<Rightarrow> 32 word \<Rightarrow> kernel \<times> error option" where
  "uapi_UnwatchLineInfo k fd off = uapi_plain k (IoctlUnwatchLineInfo fd off)"

definition uapi_GetLine :: "kernel \<Rightarrow> nat \<Rightarrow> uapi_LineRequest \<Rightarrow> kernel \<times> error option \<times> nat" where
  "uapi_GetLine k fd lr =
     (case uapi_newfd k (IoctlGetLine fd lr) of
        (k', Some e, n) \<Rightarrow> (k', Some e, n)
      | (k', None, n) \<Rightarrow>
          (if lc_Direction (lr_Config lr) = LineDirectionOutput
           then k'\<lparr>k_values := (k_values k')(n := (\<lambda>i. i \<in> lc_Values (lr_Config lr)))\<rparr>
           else k', None, n))"

definition uapi_GetLineEvent :: "kernel \<Rightarrow> nat \<Rightarrow> uapi_EventRequest \<Rightarrow> kernel \<times> error option \<times> nat" where
  "uapi_GetLineEvent k fd er = uapi_newfd k (IoctlGetLineEvent fd er)"

definition uapi_GetLineHandle :: "kernel \<Rightarrow> nat \<Rightarrow> uapi_HandleRequest \<Rightarrow> kernel \<times> error option \<times> nat" where
  "uapi_GetLineHandle k fd hr =
     (case uapi_newfd k (IoctlGetLineHandle fd hr) of
        (k', Some e, n) \<Rightarrow> (k', Some e, n)
      | (k', None, n) \<Rightarrow>
          (if HandleRequestOutput \<in> hr_Flags hr
           then k'\<lparr>k_values := (k_values k')(n :=
                  (\<lambda>i. i < length (hr_DefaultValues hr) \<and> hr_DefaultValues hr ! i \<noteq> 0))\<rparr>
           else k', None, n))"

definition uapi_SetLineConfig :: "kernel \<Rightarrow> nat \<Rightarrow> uapi_HandleConfig \<Rightarrow> kernel \<times> error option" where
  "uapi_SetLineConfig k fd hc = uapi_plain k (IoctlSetLineConfig fd hc)"

definition uapi_SetLineConfigV2 :: "kernel \<Rightarrow> nat \<Rightarrow> uapi_LineConfig \<Rightarrow> kernel \<times> error option" where
  "uapi_SetLineConfigV2 k fd lc = uapi_plain k (IoctlSetLineConfigV2 fd lc)"

section \<open>The data model of gpiod.go\<close>

record LineInfo =
  Offset :: int
  Name :: string
  Consumer :: string
  Config :: LineConfig

text \<open>
  Modelled from the spec: options.go is not among the sources. \<open>ChipOptions\<close> and
  \<open>LineOptions\<close> have the fields gpiod.go reads and writes; an option is what its apply
  method does to the option struct it is handed, so a \<open>ChipOption\<close>, a \<open>LineOption\<close>
  and a \<open>LineReconfig\<close> are functions on the struct. An event handler and an info-change
  handler are opaque identities, \<open>None\<close> being the nil handler.
\<close>

record ChipOptions =
  co_consumer :: string
  co_Config :: LineConfig
  co_abi :: int

record LineOptions =
  lo_consumer :: string
  lo_Config :: LineConfig
  lo_abi :: int
  lo_values :: "int list"
  lo_eh :: "nat option"

type_synonym ChipOption = "ChipOptions \<Rightarrow> ChipOptions"

type_synonym LineOption = "LineOptions \<Rightarrow> LineOptions"

type_synonym LineReconfig = "LineOptions \<Rightarrow> LineOptions"

datatype infoWatcher = InfoWatcher nat int

datatype watcher =
    Watcher nat "nat option"
  | WatcherV1 "(nat \<times> int) list" "nat option"

text \<open>
  The struct \<open>Chip\<close>: \<open>c_f\<close> is the descriptor of the open device, \<open>c_ich\<close> the
  handler map keyed by offset (a nil map reads as the empty map). The mutex is not
  modelled: every method runs to its end before the next starts.
\<close>

record Chip =
  c_f :: nat
  c_Name :: string
  c_Label :: string
  c_lines :: int
  c_options :: ChipOptions
  c_iw :: "infoWatcher option"
  c_ich :: "int \<rightharpoonup> nat option"
  c_closed :: bool

text \<open>
  The struct \<open>baseLine\<close>, which \<open>Line\<close> and \<open>Lines\<close> both embed. \<open>l_info\<close> is
  \<open>None\<close> for the nil slice.
\<close>

record baseLine =
  l_offsets :: "int list"
  l_vfd :: nat
  l_isEvent :: bool
  l_chip :: string
  l_abi :: int
  l_config :: LineConfig
  l_values :: "int list"
  l_info :: "LineInfo list option"
  l_closed :: bool
  l_watcher :: "watcher option"

section \<open>Chip\<close>

definition nameToPath :: "string \<Rightarrow> string" where
  "nameToPath name = (if take 5 name = ''/dev/'' then name else ''/dev/'' @ name)"

text \<open>
  \<open>IsChip\<close> is a sequence of file-system reads (lstat, the sysfs device identity); its
  verdict on a path is taken from the environment.
\<close>

definition IsChip :: "kernel \<Rightarrow> string \<Rightarrow> error option" where
  "IsChip k name = k_ischip k (nameToPath name)"

fun decimal :: "nat \<Rightarrow> string" where
  "decimal n =
     (if n < 10 then [char_of (48 + n)]
      else decimal (n div 10) @ [char_of (48 + n mod 10)])"

declare decimal.simps [simp del]

definition lineInfoToLineConfig :: "uapi_LineInfo \<Rightarrow> LineConfig" where
  "lineInfoToLineConfig li =
     (let lc0 = LineConfig0;
          lc1 = (if LineFlagActiveLow \<in> li_Flags li
                 then lc0\<lparr>Flags := insert LineFlagV2ActiveLow (Flags lc0)\<rparr> else lc0);
          lc2 = lc1\<lparr>Flags := insert LineFlagV2Direction (Flags lc1)\<rparr>;
          lc3 = (if LineFlagIsOut \<in> li_Flags li
                 then (let a = lc2\<lparr>Direction := LineDirectionOutput,
                                 Flags := insert LineFlagV2Drive (Flags lc2)\<rparr>
                       in if LineFlagOpenDrain \<in> li_Flags li then a\<lparr>Drive := LineDriveOpenDrain\<rparr>
                          else if LineFlagOpenSource \<in> li_Flags li
                          then a\<lparr>Drive := LineDriveOpenSource\<rparr>
                          else a)
                 else lc2)
      in if LineFlagPullUp \<in> li_Flags li
         then lc3\<lparr>Flags := insert LineFlagV2Bias (Flags lc3), Bias := LineBiasPullUp\<rparr>
         else if LineFlagPullDown \<in> li_Flags li
         then lc3\<lparr>Flags := insert LineFlagV2Bias (Flags lc3), Bias := LineBiasPullDown\<rparr>
         else if LineFlagBiasDisable \<in> li_Flags li
         then lc3\<lparr>Flags := insert LineFlagV2Bias (Flags lc3), Bias := LineBiasDisabled\<rparr>
         else lc3)"

definition newLineInfo :: "uapi_LineInfo \<Rightarrow> LineInfo" where
  "newLineInfo li =
     \<lparr>Offset = uint (li_Offset li),
      Name = BytesToString (li_Name li),
      Consumer = BytesToString (li_Consumer li),
      Config = lineInfoToLineConfig li\<rparr>"

definition newLineInfoV2 :: "uapi_LineInfoV2 \<Rightarrow> LineInfo" where
  "newLineInfoV2 li =
     \<lparr>Offset = uint (li2_Offset li),
      Name = BytesToString (li2_Name li),
      Consumer = BytesToString (li2_Consumer li),
      Config = \<lparr>Flags = lc_Flags (li2_Config li),
                Direction = lc_Direction (li2_Config li),
                Drive = lc_Drive (li2_Config li),
                Bias = lc_Bias (li2_Config li),
                EdgeDetection = lc_EdgeDetection (li2_Config li),
                Debounce = lc_Debounce (li2_Config li)\<rparr>\<rparr>"

text \<open>\<open>Chip.LineInfo\<close>: the closed flag, then the offset range, then the query of the ABI.\<close>

definition Chip_LineInfo :: "kernel \<Rightarrow> Chip \<Rightarrow> int \<Rightarrow> kernel \<times> (error + LineInfo)" where
  "Chip_LineInfo k c offset =
     (if c_closed c then (k, Inl ErrClosed)
      else if offset < 0 \<or> offset \<ge> c_lines c then (k, Inl ErrInvalidOffset)
      else if co_abi (c_options c) = 1 then
        (case uapi_GetLineInfo k (c_f c) offset of
           (k', Some e, li) \<Rightarrow> (k', Inl e)
         | (k', None, li) \<Rightarrow> (k', Inr (newLineInfo li)))
      else
        (case uapi_GetLineInfoV2 k (c_f c) offset of
           (k', Some e, li) \<Rightarrow> (k', Inl e)
         | (k', None, li) \<Rightarrow> (k', Inr (newLineInfoV2 li))))"

text \<open>
  \<open>NewChip\<close>: the device check, the chip options, the open, the chip information, and,
  when no option chose the ABI, the probe: \<open>LineInfo(0)\<close> run with \<open>abi = 0\<close>.
\<close>

definition chipOptions :: "kernel \<Rightarrow> ChipOption list \<Rightarrow> ChipOptions" where
  "chipOptions k opts =
     foldl (\<lambda>co opt. opt co)
       \<lparr>co_consumer = ''gpiod-'' @ decimal (k_pid k), co_Config = LineConfig0, co_abi = 0\<rparr> opts"

definition NewChip :: "kernel \<Rightarrow> string \<Rightarrow> ChipOption list \<Rightarrow> kernel \<times> (error + Chip)" where
  "NewChip k name opts =
     (let path = nameToPath name in
      case IsChip k path of
        Some e \<Rightarrow> (k, Inl e)
      | None \<Rightarrow>
          (let co = chipOptions k opts
           in case uapi_newfd k (SysOpen path) of
                (k1, Some e, f) \<Rightarrow> (k1, Inl e)
              | (k1, None, f) \<Rightarrow>
                  (case uapi_GetChipInfo k1 f of
                     (k2, Some e, ci) \<Rightarrow> (klog k2 (SysClose f), Inl e)
                   | (k2, None, ci) \<Rightarrow>
                       (let c = \<lparr>c_f = f,
                                 c_Name = BytesToString (ci_Name ci),
                                 c_Label = BytesToString (ci_Label ci),
                                 c_lines = uint (ci_Lines ci),
                                 c_options = co,
                                 c_iw = None, c_ich = Map.empty, c_closed = False\<rparr>;
                            (k3, c1) =
                              (if co_abi (c_options c) = 0 then
                                 (case Chip_LineInfo k2 c 0 of
                                    (k', Inr info) \<Rightarrow>
                                      (k', c\<lparr>c_options := (c_options c)\<lparr>co_abi := 2\<rparr>\<rparr>)
                                  | (k', Inl e) \<Rightarrow>
                                      (k', c\<lparr>c_options := (c_options c)\<lparr>co_abi := 1\<rparr>\<rparr>))
                               else (k2, c));
                            c2 = (if length (c_Label c1) = 0 then c1\<lparr>c_Label := ''unknown''\<rparr>
                                  else c1)
                        in (k3, Inr c2)))))"

text \<open>
  \<open>Chip.Close\<close>: the second close fails; the first stops the info watcher and closes
  the file. \<open>c_f\<close> stands for what \<open>c.f.Fd()\<close> returns, which for a closed file is
  \<open>^uintptr(0)\<close>.
\<close>

definition InvalidFd :: nat where
  "InvalidFd = 2 ^ 64 - 1"

definition Chip_Close :: "kernel \<Rightarrow> Chip \<Rightarrow> kernel \<times> Chip \<times> error option" where
  "Chip_Close k c =
     (let closed = c_closed c; c' = c\<lparr>c_closed := True\<rparr>
      in if closed then (k, c', Some ErrClosed)
         else (let k1 = (if c_iw c \<noteq> None then klog k InfoWatcherClose else k);
                   (k2, err) = uapi_plain k1 (SysClose (c_f c))
               in (k2, c'\<lparr>c_f := InvalidFd\<rparr>, err)))"

section \<open>Requesting lines\<close>

text \<open>
  Modelled from the spec: the size of the consumer buffer of the request structs, of
  which the last byte is kept for the terminating zero.
\<close>

definition ConsumerSize :: nat where
  "ConsumerSize = 32"

definition lineConfigToHandleFlags :: "LineConfig \<Rightarrow> HandleFlag set" where
  "lineConfigToHandleFlags lc =
     (let f0 = {};
          f1 = (if LineFlagV2ActiveLow \<in> Flags lc then insert HandleRequestActiveLow f0 else f0);
          f2 = (if Direction lc = LineDirectionOutput then insert HandleRequestOutput f1
                else if Direction lc = LineDirectionInput \<and> LineFlagV2Direction \<in> Flags lc
                then insert HandleRequestInput f1
                else f1);
          f3 = (if Drive lc = LineDriveOpenDrain then insert HandleRequestOpenDrain f2
                else if Drive lc = LineDriveOpenSource then insert HandleRequestOpenSource f2
                else f2)
      in if Bias lc = LineBiasPullUp then insert HandleRequestPullUp f3
         else if Bias lc = LineBiasPullDown then insert HandleRequestPullDown f3
         else if Bias lc = LineBiasDisabled \<and> LineFlagV2Bias \<in> Flags lc
         then insert HandleRequestBiasDisable f3
         else f3)"

definition lineConfigToEventFlag :: "LineConfig \<Rightarrow> EventFlag set" where
  "lineConfigToEventFlag lc =
     (if EdgeDetection lc = LineEdgeBoth then EventRequestBothEdges
      else if EdgeDetection lc = LineEdgeRising then {EventRequestRisingEdge}
      else if EdgeDetection lc = LineEdgeFalling then {EventRequestFallingEdge}
      else {})"

definition toLineConfigV2 :: "LineConfig \<Rightarrow> LineValues \<Rightarrow> uapi_LineConfig" where
  "toLineConfigV2 lc vv =
     \<lparr>lc_Flags = Flags lc, lc_Direction = Direction lc, lc_Drive = Drive lc,
      lc_Bias = Bias lc, lc_EdgeDetection = EdgeDetection lc, lc_Debounce = Debounce lc,
      lc_Values = vv\<rparr>"

text \<open>
  The loops \<open>for i, v := range values\<close> that fill a fixed-size array or the value
  encoding; writing an array beyond its size panics, which the callers check first.
\<close>

definition setOffsets :: "nat \<Rightarrow> int list \<Rightarrow> 32 word list" where
  "setOffsets n offsets =
     foldl (\<lambda>a (i, off). a[i := word_of_int off]) (replicate n 0) (enumerate 0 offsets)"

definition setDefaultValues :: "int list \<Rightarrow> HandleData" where
  "setDefaultValues vs =
     foldl (\<lambda>a (i, v). a[i := word_of_int v]) HandleData0 (enumerate 0 vs)"

definition setLineValues :: "int list \<Rightarrow> LineValues" where
  "setLineValues vs = foldl (\<lambda>lv (i, v). LineValues_Set lv i v) {} (enumerate 0 vs)"

definition truncateValues :: "nat \<Rightarrow> int list \<Rightarrow> int list" where
  "truncateValues n vs = (if length vs > n then take n vs else vs)"

text \<open>
  The request structs the three request paths fill in from the options: the ABI v2 line
  request (the values cut to the number of offsets once more, as \<open>getLine\<close> does), the
  ABI v1 event request of one offset, and the ABI v1 handle request.
\<close>

definition lineRequest :: "LineOptions \<Rightarrow> int list \<Rightarrow> uapi_LineRequest" where
  "lineRequest lo offsets =
     \<lparr>lr_Offsets = setOffsets LinesMax offsets,
      lr_Consumer = take (ConsumerSize - 1) (lo_consumer lo),
      lr_Config = toLineConfigV2 (lo_Config lo)
                    (setLineValues (truncateValues (length offsets) (lo_values lo))),
      lr_Lines = of_nat (length offsets)\<rparr>"

definition eventRequest :: "LineOptions \<Rightarrow> int \<Rightarrow> uapi_EventRequest" where
  "eventRequest lo off =
     \<lparr>er_Offset = word_of_int off,
      er_HandleFlags = lineConfigToHandleFlags (lo_Config lo),
      er_EventFlags = lineConfigToEventFlag (lo_Config lo),
      er_Consumer = take (ConsumerSize - 1) (lo_consumer lo)\<rparr>"

definition handleRequest :: "LineOptions \<Rightarrow> int list \<Rightarrow> uapi_HandleRequest" where
  "handleRequest lo offsets =
     \<lparr>hr_Offsets = setOffsets HandlesMax offsets,
      hr_Flags = lineConfigToHandleFlags (lo_Config lo),
      hr_DefaultValues = setDefaultValues (lo_values lo),
      hr_Consumer = take (ConsumerSize - 1) (lo_consumer lo),
      hr_Lines = of_nat (length offsets)\<rparr>"

text \<open>\<open>Chip.getLine\<close>: the unified ABI v2 request, and its watcher when edges are detected.\<close>

definition Chip_getLine ::
  "kernel \<Rightarrow> Chip \<Rightarrow> int list \<Rightarrow> LineOptions \<Rightarrow> kernel \<times> (error + nat \<times> watcher option)" where
  "Chip_getLine k c offsets lo =
     (if LinesMax < length offsets then (k, Inl Panic)
      else
        (let lr = lineRequest lo offsets
         in case uapi_GetLine k (c_f c) lr of
              (k1, Some e, fd) \<Rightarrow> (k1, Inl e)
            | (k1, None, fd) \<Rightarrow>
                (if EdgeDetection (lo_Config lo) \<noteq> LineEdgeNone then
                   (case uapi_plain k1 (NewWatcher fd (lo_eh lo)) of
                      (k2, Some e) \<Rightarrow> (klog k2 (SysClose fd), Inl e)
                    | (k2, None) \<Rightarrow> (k2, Inr (fd, Some (Watcher fd (lo_eh lo)))))
                 else (k1, Inr (fd, None)))))"

text \<open>
  \<open>Chip.getEventRequest\<close>: one ABI v1 event request per offset, the first descriptor
  being the value descriptor, then the watcher over all of them. The loop returns at the
  first request the kernel refuses; the descriptors are closed only when the watcher
  cannot be started (in the order of the list; Go leaves the order of a map open).
\<close>

fun getEventRequest_loop ::
  "kernel \<Rightarrow> Chip \<Rightarrow> LineOptions \<Rightarrow> nat \<Rightarrow> (nat \<times> int) list \<Rightarrow> nat \<Rightarrow> int list
     \<Rightarrow> kernel \<times> (error + nat \<times> (nat \<times> int) list)" where
  "getEventRequest_loop k c lo vfd fds i [] = (k, Inr (vfd, fds))"
| "getEventRequest_loop k c lo vfd fds i (off # offs) =
     (let er = eventRequest lo off
      in case uapi_GetLineEvent k (c_f c) er of
           (k1, Some e, fd) \<Rightarrow> (k1, Inl e)
         | (k1, None, fd) \<Rightarrow>
             getEventRequest_loop k1 c lo (if i = 0 then fd else vfd)
               (AList.update fd off fds) (Suc i) offs)"

definition Chip_getEventRequest ::
  "kernel \<Rightarrow> Chip \<Rightarrow> int list \<Rightarrow> LineOptions \<Rightarrow> kernel \<times> (error + nat \<times> watcher option)" where
  "Chip_getEventRequest k c offsets lo =
     (case getEventRequest_loop k c lo 0 [] 0 offsets of
        (k1, Inl e) \<Rightarrow> (k1, Inl e)
      | (k1, Inr (vfd, fds)) \<Rightarrow>
          (case uapi_plain k1 (NewWatcherV1 fds (lo_eh lo)) of
             (k2, Some e) \<Rightarrow> (foldl (\<lambda>k' fd. klog k' (SysClose fd)) k2 (map fst fds), Inl e)
           | (k2, None) \<Rightarrow> (k2, Inr (vfd, Some (WatcherV1 fds (lo_eh lo))))))"

text \<open>\<open>Chip.getHandleRequest\<close>: the plain ABI v1 handle request.\<close>

definition Chip_getHandleRequest ::
  "kernel \<Rightarrow> Chip \<Rightarrow> int list \<Rightarrow> LineOptions \<Rightarrow> kernel \<times> (error + nat)" where
  "Chip_getHandleRequest k c offsets lo =
     (if HandlesMax < length offsets \<or> HandlesMax < length (lo_values lo) then (k, Inl Panic)
      else
        (let hr = handleRequest lo offsets
         in case uapi_GetLineHandle k (c_f c) hr of
              (k1, Some e, fd) \<Rightarrow> (k1, Inl e)
            | (k1, None, fd) \<Rightarrow> (k1, Inr fd)))"

text \<open>
  The effective options of a request: a copy of the chip's defaults, the caller's options
  applied to the copy in order, and the values cut to the number of offsets.
\<close>

definition defaultLineOptions :: "Chip \<Rightarrow> LineOptions" where
  "defaultLineOptions c =
     \<lparr>lo_consumer = co_consumer (c_options c),
      lo_Config = co_Config (c_options c),
      lo_abi = co_abi (c_options c),
      lo_values = [], lo_eh = None\<rparr>"

definition lineOptions :: "Chip \<Rightarrow> int list \<Rightarrow> LineOption list \<Rightarrow> LineOptions" where
  "lineOptions c offsets opts =
     (let lo = foldl (\<lambda>lo opt. opt lo) (defaultLineOptions c) opts
      in lo\<lparr>lo_values := truncateValues (length offsets) (lo_values lo)\<rparr>)"

text \<open>
  \<open>Chip.RequestLines\<close>, a method on the chip: it returns the kernel, the chip as the
  method leaves it, and the new request or the error. The three kernel paths: the ABI v2
  request, the ABI v1 event request when an event handler was given, the ABI v1 handle
  request otherwise.
\<close>

definition Chip_RequestLines ::
  "kernel \<Rightarrow> Chip \<Rightarrow> int list \<Rightarrow> LineOption list \<Rightarrow> kernel \<times> Chip \<times> (error + baseLine)" where
  "Chip_RequestLines k c offsets opts =
     (if \<exists>off \<in> set offsets. off < 0 \<or> off \<ge> c_lines c then (k, c, Inl ErrInvalidOffset)
      else
        (let lo = lineOptions c offsets opts;
             ll = \<lparr>l_offsets = offsets, l_vfd = 0, l_isEvent = False, l_chip = c_Name c,
                   l_abi = lo_abi lo, l_config = lo_Config lo, l_values = lo_values lo,
                   l_info = None, l_closed = False, l_watcher = None\<rparr>
         in if l_abi ll = 2 then
              (case Chip_getLine k c (l_offsets ll) lo of
                 (k1, Inl e) \<Rightarrow> (k1, c, Inl e)
               | (k1, Inr (fd, w)) \<Rightarrow> (k1, c, Inr (ll\<lparr>l_vfd := fd, l_watcher := w\<rparr>)))
            else if lo_eh lo \<noteq> None then
              (case Chip_getEventRequest k c (l_offsets ll) lo of
                 (k1, Inl e) \<Rightarrow> (k1, c, Inl e)
               | (k1, Inr (fd, w)) \<Rightarrow>
                   (k1, c, Inr (ll\<lparr>l_isEvent := True, l_vfd := fd, l_watcher := w\<rparr>)))
            else
              (case Chip_getHandleRequest k c (l_offsets ll) lo of
                 (k1, Inl e) \<Rightarrow> (k1, c, Inl e)
               | (k1, Inr fd) \<Rightarrow> (k1, c, Inr (ll\<lparr>l_vfd := fd\<rparr>)))))"

text \<open>\<open>Chip.RequestLine\<close>: the request of one offset, copied field by field into a \<open>Line\<close>.\<close>

definition Chip_RequestLine ::
  "kernel \<Rightarrow> Chip \<Rightarrow> int \<Rightarrow> LineOption list \<Rightarrow> kernel \<times> Chip \<times> (error + baseLine)" where
  "Chip_RequestLine k c offset opts =
     (case Chip_RequestLines k c [offset] opts of
        (k1, c1, Inl e) \<Rightarrow> (k1, c1, Inl e)
      | (k1, c1, Inr ll) \<Rightarrow>
          (k1, c1, Inr \<lparr>l_offsets = l_offsets ll, l_vfd = l_vfd ll, l_isEvent = l_isEvent ll,
                        l_chip = l_chip ll, l_abi = l_abi ll, l_config = l_config ll,
                        l_values = l_values ll, l_info = None, l_closed = False,
                        l_watcher = l_watcher ll\<rparr>))"

section \<open>Watching line info\<close>

text \<open>\<open>Chip.createInfoWatcher\<close>: on success the watcher and a fresh handler map.\<close>

definition Chip_createInfoWatcher :: "kernel \<Rightarrow> Chip \<Rightarrow> kernel \<times> Chip \<times> error option" where
  "Chip_createInfoWatcher k c =
     (case uapi_plain k (NewInfoWatcher (c_f c) (co_abi (c_options c))) of
        (k1, Some e) \<Rightarrow> (k1, c, Some e)
      | (k1, None) \<Rightarrow>
          (k1, c\<lparr>c_iw := Some (InfoWatcher (c_f c) (co_abi (c_options c))),
                 c_ich := Map.empty\<rparr>, None))"

text \<open>
  \<open>Chip.WatchLineInfo\<close>: the closed flag, the watcher created on first use, the watch
  call of the ABI, and only then the handler stored under the offset.
\<close>

definition Chip_WatchLineInfo ::
  "kernel \<Rightarrow> Chip \<Rightarrow> int \<Rightarrow> nat option \<Rightarrow> kernel \<times> Chip \<times> (error + LineInfo)" where
  "Chip_WatchLineInfo k c offset lich =
     (if c_closed c then (k, c, Inl ErrClosed)
      else
        (case (if c_iw c = None then Chip_createInfoWatcher k c else (k, c, None)) of
           (k1, c1, Some e) \<Rightarrow> (k1, c1, Inl e)
         | (k1, c1, None) \<Rightarrow>
             (if co_abi (c_options c1) = 1 then
                (case uapi_WatchLineInfo k1 (c_f c1) (word_of_int offset) of
                   (k2, Some e, li) \<Rightarrow> (k2, c1, Inl e)
                 | (k2, None, li) \<Rightarrow>
                     (k2, c1\<lparr>c_ich := (c_ich c1)(offset \<mapsto> lich)\<rparr>, Inr (newLineInfo li)))
              else
                (case uapi_WatchLineInfoV2 k1 (c_f c1) (word_of_int offset) of
                   (k2, Some e, li) \<Rightarrow> (k2, c1, Inl e)
                 | (k2, None, li) \<Rightarrow>
                     (k2, c1\<lparr>c_ich := (c_ich c1)(offset \<mapsto> lich)\<rparr>,
                      Inr (newLineInfoV2 li))))))"

text \<open>\<open>Chip.UnwatchLineInfo\<close>: nothing on a closed chip; else the handler goes, then the call.\<close>

definition Chip_UnwatchLineInfo :: "kernel \<Rightarrow> Chip \<Rightarrow> int \<Rightarrow> kernel \<times> Chip \<times> error option" where
  "Chip_UnwatchLineInfo k c offset =
     (if c_closed c then (k, c, None)
      else
        (case uapi_UnwatchLineInfo k (c_f c) (word_of_int offset) of
           (k1, err) \<Rightarrow> (k1, c\<lparr>c_ich := (c_ich c)(offset := None)\<rparr>, err)))"

section \<open>Requests: close and reconfigure\<close>

text \<open>
  \<open>baseLine.Close\<close>: the second close fails; the first sets the flag, stops the
  watcher, and closes the descriptor unless the request is an ABI v1 event request.
\<close>

definition baseLine_Close :: "kernel \<Rightarrow> baseLine \<Rightarrow> kernel \<times> baseLine \<times> error option" where
  "baseLine_Close k l =
     (if l_closed l then (k, l, Some ErrClosed)
      else
        (let l1 = l\<lparr>l_closed := True\<rparr>;
             k1 = (if l_watcher l \<noteq> None then klog k WatcherClose else k);
             k2 = (if l_isEvent l then k1 else klog k1 (SysClose (l_vfd l)))
         in (k2, l1, None)))"

text \<open>
  The options of a reconfiguration: the cached configuration and values, the given
  options applied in order, the values cut to the number of lines.
\<close>

definition reconfigOptions :: "baseLine \<Rightarrow> LineReconfig list \<Rightarrow> LineOptions" where
  "reconfigOptions l opts =
     (let lo = foldl (\<lambda>lo opt. opt lo)
                 \<lparr>lo_consumer = [], lo_Config = l_config l, lo_abi = 0,
                  lo_values = l_values l, lo_eh = None\<rparr> opts
      in lo\<lparr>lo_values := truncateValues (length (l_offsets l)) (lo_values lo)\<rparr>)"

text \<open>
  \<open>baseLine.Reconfigure\<close>. The checks come in the order of the source: the event flag,
  the empty option list, and only then the closed flag. Under ABI v1 the values travel as
  default values of the handle configuration; under ABI v2 they are encoded when the
  direction is output.
\<close>

definition baseLine_Reconfigure ::
  "kernel \<Rightarrow> baseLine \<Rightarrow> LineReconfig list \<Rightarrow> kernel \<times> baseLine \<times> error option" where
  "baseLine_Reconfigure k l opts =
     (if l_isEvent l then (k, l, Some EINVAL)
      else if length opts = 0 then (k, l, None)
      else if l_closed l then (k, l, Some ErrClosed)
      else
        (let lo = reconfigOptions l opts in
         if l_abi l = 1 then
           (if HandlesMax < length (lo_values lo) then (k, l, Some Panic)
            else
              (let hc = \<lparr>hc_Flags = lineConfigToHandleFlags (lo_Config lo),
                         hc_DefaultValues = setDefaultValues (lo_values lo)\<rparr>
               in case uapi_SetLineConfig k (l_vfd l) hc of
                    (k1, None) \<Rightarrow> (k1, l\<lparr>l_config := lo_Config lo\<rparr>, None)
                  | (k1, Some e) \<Rightarrow> (k1, l, Some e)))
         else
           (let config = toLineConfigV2 (lo_Config lo)
                           (if Direction (lo_Config lo) = LineDirectionOutput
                            then setLineValues (lo_values lo) else {})
            in case uapi_SetLineConfigV2 k (l_vfd l) config of
                 (k1, None) \<Rightarrow>
                   (k1, l\<lparr>l_config := lo_Config lo, l_values := lo_values lo\<rparr>, None)
               | (k1, Some e) \<Rightarrow> (k1, l, Some e))))"

section \<open>Line\<close>

text \<open>
  \<open>Line.Info\<close>: the cached snapshot, or a fresh one through a transient chip handle,
  which the deferred \<open>Close\<close> releases on every path after it was opened.
\<close>

definition Line_Info :: "kernel \<Rightarrow> baseLine \<Rightarrow> kernel \<times> baseLine \<times> (error + LineInfo)" where
  "Line_Info k l =
     (if l_closed l then (k, l, Inl ErrClosed)
      else
        (case l_info l of
           Some [] \<Rightarrow> (k, l, Inl Panic)
         | Some (i # is) \<Rightarrow> (k, l, Inr i)
         | None \<Rightarrow>
             (case NewChip k (l_chip l) [] of
                (k1, Inl e) \<Rightarrow> (k1, l, Inl e)
              | (k1, Inr c) \<Rightarrow>
                  (case l_offsets l of
                     [] \<Rightarrow> (fst (Chip_Close k1 c), l, Inl Panic)
                   | off # offs \<Rightarrow>
                       (case Chip_LineInfo k1 c off of
                          (k2, Inl e) \<Rightarrow> (fst (Chip_Close k2 c), l, Inl e)
                        | (k2, Inr info) \<Rightarrow>
                            (fst (Chip_Close k2 c), l\<lparr>l_info := Some [info]\<rparr>, Inr info))))))"

text \<open>\<open>Line.Value\<close>: the first entry of what the value query of the ABI answers.\<close>

definition Line_Value :: "kernel \<Rightarrow> baseLine \<Rightarrow> kernel \<times> int \<times> error option" where
  "Line_Value k l =
     (if l_closed l then (k, 0, Some ErrClosed)
      else if l_abi l = 1 then
        (case uapi_GetLineValues k (l_vfd l) of
           (k1, err, hdata) \<Rightarrow> (k1, uint (hdata ! 0), err))
      else
        (case uapi_GetLineValuesV2 k (l_vfd l) of
           (k1, err, lv) \<Rightarrow> (k1, LineValues_Get lv 0, err)))"

text \<open>
  \<open>Line.SetValue\<close>. The direction is checked before the closed flag. Under ABI v1 the
  handle data handed to the kernel is the zero value the source declares: the source
  never stores \<open>value\<close> in it.
\<close>

definition Line_SetValue :: "kernel \<Rightarrow> baseLine \<Rightarrow> int \<Rightarrow> kernel \<times> baseLine \<times> error option" where
  "Line_SetValue k l v =
     (if Direction (l_config l) \<noteq> LineDirectionOutput then (k, l, Some ErrPermissionDenied)
      else if l_closed l then (k, l, Some ErrClosed)
      else if l_abi l = 1 then
        (case uapi_SetLineValues k (l_vfd l) HandleData0 of
           (k1, None) \<Rightarrow> (k1, l\<lparr>l_values := [v]\<rparr>, None)
         | (k1, Some e) \<Rightarrow> (k1, l, Some e))
      else
        (case uapi_SetLineValuesV2 k (l_vfd l) (NewLineValues [v]) of
           (k1, None) \<Rightarrow> (k1, l\<lparr>l_values := [v]\<rparr>, None)
         | (k1, Some e) \<Rightarrow> (k1, l, Some e)))"

section \<open>Lines\<close>

fun Lines_Info_loop :: "kernel \<Rightarrow> Chip \<Rightarrow> int list \<Rightarrow> kernel \<times> (error + LineInfo list)" where
  "Lines_Info_loop k c [] = (k, Inr [])"
| "Lines_Info_loop k c (off # offs) =
     (case Chip_LineInfo k c off of
        (k1, Inl e) \<Rightarrow> (k1, Inl e)
      | (k1, Inr info) \<Rightarrow>
          (case Lines_Info_loop k1 c offs of
             (k2, Inl e) \<Rightarrow> (k2, Inl e)
           | (k2, Inr infos) \<Rightarrow> (k2, Inr (info # infos))))"

text \<open>\<open>Lines.Info\<close>: the cached snapshots, or fresh ones for every offset, in order.\<close>

definition Lines_Info :: "kernel \<Rightarrow> baseLine \<Rightarrow> kernel \<times> baseLine \<times> (error + LineInfo list)" where
  "Lines_Info k l =
     (if l_closed l then (k, l, Inl ErrClosed)
      else
        (case l_info l of
           Some infos \<Rightarrow> (k, l, Inr infos)
         | None \<Rightarrow>
             (case NewChip k (l_chip l) [] of
                (k1, Inl e) \<Rightarrow> (k1, l, Inl e)
              | (k1, Inr c) \<Rightarrow>
                  (case Lines_Info_loop k1 c (l_offsets l) of
                     (k2, Inl e) \<Rightarrow> (fst (Chip_Close k2 c), l, Inl e)
                   | (k2, Inr infos) \<Rightarrow>
                       (fst (Chip_Close k2 c), l\<lparr>l_info := Some infos\<rparr>, Inr infos)))))"

text \<open>
  \<open>Lines.Values\<close>. \<open>lines\<close> is the smaller of the buffer's length and the number of
  offsets; the loop \<open>for i := 0; i < lines; i++\<close> stores entry \<open>i\<close> of the kernel's
  answer in slot \<open>i\<close> of the buffer. The ABI v1 answer is an array of \<open>HandlesMax\<close>
  entries: reading it beyond its end panics after the entries before were stored.
\<close>

definition fillValues :: "(nat \<Rightarrow> int) \<Rightarrow> nat \<Rightarrow> int list \<Rightarrow> int list" where
  "fillValues g lines vals = foldl (\<lambda>b i. b[i := g i]) vals [0..<lines]"

definition Lines_Values ::
  "kernel \<Rightarrow> baseLine \<Rightarrow> int list \<Rightarrow> kernel \<times> error option \<times> int list" where
  "Lines_Values k l vals =
     (if l_closed l then (k, Some ErrClosed, vals)
      else
        (let lines = (if length vals > length (l_offsets l) then length (l_offsets l)
                      else length vals)
         in if l_abi l = 1 then
              (case uapi_GetLineValues k (l_vfd l) of
                 (k1, Some e, hdata) \<Rightarrow> (k1, Some e, vals)
               | (k1, None, hdata) \<Rightarrow>
                   (if HandlesMax < lines
                    then (k1, Some Panic, fillValues (\<lambda>i. uint (hdata ! i)) HandlesMax vals)
                    else (k1, None, fillValues (\<lambda>i. uint (hdata ! i)) lines vals)))
            else
              (case uapi_GetLineValuesV2 k (l_vfd l) of
                 (k1, Some e, lv) \<Rightarrow> (k1, Some e, vals)
               | (k1, None, lv) \<Rightarrow> (k1, None, fillValues (LineValues_Get lv) lines vals))))"

text \<open>
  \<open>Lines.SetValues\<close>. The direction is checked before the closed flag; surplus values
  are cut; the values are encoded and written with the ABI v2 call, whatever the ABI of
  the request; on success the cut values are cached.
\<close>

definition Lines_SetValues ::
  "kernel \<Rightarrow> baseLine \<Rightarrow> int list \<Rightarrow> kernel \<times> baseLine \<times> error option" where
  "Lines_SetValues k l vals =
     (if Direction (l_config l) \<noteq> LineDirectionOutput then (k, l, Some ErrPermissionDenied)
      else if l_closed l then (k, l, Some ErrClosed)
      else
        (let vs = truncateValues (length (l_offsets l)) vals
         in case uapi_SetLineValuesV2 k (l_vfd l) (setLineValues vs) of
              (k1, None) \<Rightarrow> (k1, l\<lparr>l_values := vs\<rparr>, None)
            | (k1, Some e) \<Rightarrow> (k1, l, Some e)))"

section \<open>Options, kernels, chips and requests to run the model on\<close>

text \<open>
  Modelled from the spec: options.go is not among the sources; these are the options the
  tests and gpiomon pass, as far as the fields of gpiod.go show what they set.
\<close>

definition WithConsumer :: "string \<Rightarrow> LineOption" where
  "WithConsumer s lo = lo\<lparr>lo_consumer := s\<rparr>"

definition AsInput :: LineOption where
  "AsInput lo =
     lo\<lparr>lo_Config := (lo_Config lo)\<lparr>Flags := insert LineFlagV2Direction (Flags (lo_Config lo)),
                                     Direction := LineDirectionInput\<rparr>\<rparr>"

definition AsOutput :: "int list \<Rightarrow> LineOption" where
  "AsOutput vs lo =
     lo\<lparr>lo_Config := (lo_Config lo)\<lparr>Flags := insert LineFlagV2Direction (Flags (lo_Config lo)),
                                     Direction := LineDirectionOutput\<rparr>,
        lo_values := vs\<rparr>"

definition WithBothEdges :: "nat \<Rightarrow> LineOption" where
  "WithBothEdges h lo =
     lo\<lparr>lo_Config := (lo_Config lo)\<lparr>Flags := insert LineFlagV2EdgeDetection (Flags (lo_Config lo)),
                                     EdgeDetection := LineEdgeBoth\<rparr>,
        lo_eh := Some h\<rparr>"

text \<open>
  A kernel that accepts every call, one that knows ABI v1 only, one that refuses to
  watch line info, and one that refuses every call.
\<close>

definition kernel0 :: kernel where
  "kernel0 =
     \<lparr>k_calls = [], k_res = (\<lambda>c. None), k_values = (\<lambda>fd i. False), k_nextfd = 4,
      k_chipinfo = \<lparr>ci_Name = [], ci_Label = [], ci_Lines = 8\<rparr>,
      k_lineinfo = (\<lambda>off. \<lparr>li_Offset = word_of_int off, li_Flags = {},
                             li_Name = [], li_Consumer = []\<rparr>),
      k_lineinfoV2 = (\<lambda>off. \<lparr>li2_Offset = word_of_int off, li2_Name = [], li2_Consumer = [],
                               li2_Config = toLineConfigV2 LineConfig0 {}\<rparr>),
      k_ischip = (\<lambda>p. None), k_pid = 1\<rparr>"

definition kernel_v1 :: kernel where
  "kernel_v1 =
     kernel0\<lparr>k_res := (\<lambda>c. case c of IoctlGetLineInfoV2 fd off \<Rightarrow> Some 22
                               | IoctlWatchLineInfoV2 fd off \<Rightarrow> Some 22
                               | IoctlGetLine fd lr \<Rightarrow> Some 22
                               | IoctlSetLineConfigV2 fd lc \<Rightarrow> Some 22
                               | IoctlGetLineValuesV2 fd \<Rightarrow> Some 22
                               | IoctlSetLineValuesV2 fd lv \<Rightarrow> Some 22
                               | _ \<Rightarrow> None)\<rparr>"

definition kernel_nowatch :: kernel where
  "kernel_nowatch =
     kernel0\<lparr>k_res := (\<lambda>c. case c of IoctlWatchLineInfo fd off \<Rightarrow> Some 22
                               | IoctlWatchLineInfoV2 fd off \<Rightarrow> Some 22
                               | _ \<Rightarrow> None)\<rparr>"

definition kernel_refuse :: kernel where
  "kernel_refuse = kernel0\<lparr>k_res := (\<lambda>c. Some 16)\<rparr>"

definition chip8 :: "int \<Rightarrow> Chip" where
  "chip8 abi =
     \<lparr>c_f = 3, c_Name = ''gpiochip0'', c_Label = ''unknown'', c_lines = 8,
      c_options = \<lparr>co_consumer = ''gpiod-1'', co_Config = LineConfig0, co_abi = abi\<rparr>,
      c_iw = None, c_ich = Map.empty, c_closed = False\<rparr>"

definition outputConfig :: LineConfig where
  "outputConfig = LineConfig0\<lparr>Flags := {LineFlagV2Direction}, Direction := LineDirectionOutput\<rparr>"

definition request_out :: "int \<Rightarrow> int list \<Rightarrow> int list \<Rightarrow> baseLine" where
  "request_out abi offsets vs =
     \<lparr>l_offsets = offsets, l_vfd = 4, l_isEvent = False, l_chip = ''gpiochip0'', l_abi = abi,
      l_config = outputConfig, l_values = vs, l_info = None, l_closed = False,
      l_watcher = None\<rparr>"

text \<open>The ABI v2 chip of eight lines with a default line configuration of its own.\<close>

definition chip8_with :: "LineConfig \<Rightarrow> Chip" where
  "chip8_with cfg =
     \<lparr>c_f = 3, c_Name = ''gpiochip0'', c_Label = ''unknown'', c_lines = 8,
      c_options = \<lparr>co_consumer = ''gpiod-1'', co_Config = cfg, co_abi = 2\<rparr>,
      c_iw = None, c_ich = Map.empty, c_closed = False\<rparr>"

definition pullUpConfig :: LineConfig where
  "pullUpConfig = LineConfig0\<lparr>Flags := {LineFlagV2Bias}, Bias := LineBiasPullUp\<rparr>"

text \<open>
  The active state, 0 or 1, the kernel reports for the line at position \<open>i\<close> of the
  request behind descriptor \<open>fd\<close>.
\<close>

definition line_state :: "kernel \<Rightarrow> nat \<Rightarrow> nat \<Rightarrow> int" where
  "line_state k fd i = (if i < LinesMax \<and> k_values k fd i then 1 else 0)"

text \<open>The value query a request issues: that of its ABI.\<close>

definition valuesCall :: "baseLine \<Rightarrow> kcall" where
  "valuesCall l =
     (if l_abi l = 1 then IoctlGetLineValues (l_vfd l) else IoctlGetLineValuesV2 (l_vfd l))"

text \<open>
  The calls a method added to the kernel's log, and what a call issued by
  \<open>Chip.RequestLines\<close> must look like under the effective options \<open>lo\<close>: a request
  call of the generation \<open>lo\<close> chooses (the ABI v2 request for version 2, the ABI v1
  event or handle request otherwise) that carries the consumer and the configuration of
  \<open>lo\<close>, or the start of a watcher, or the close of a descriptor.
\<close>

definition new_calls :: "kernel \<Rightarrow> kernel \<Rightarrow> kcall list" where
  "new_calls k k' = drop (length (k_calls k)) (k_calls k')"

definition request_call :: "LineOptions \<Rightarrow> kcall \<Rightarrow> bool" where
  "request_call lo call =
     (case call of
        IoctlGetLine fd lr \<Rightarrow>
          lo_abi lo = 2 \<and> lr_Consumer lr = take (ConsumerSize - 1) (lo_consumer lo)
          \<and> lr_Config lr = toLineConfigV2 (lo_Config lo) (lc_Values (lr_Config lr))
      | IoctlGetLineEvent fd er \<Rightarrow>
          lo_abi lo \<noteq> 2 \<and> er_Consumer er = take (ConsumerSize - 1) (lo_consumer lo)
          \<and> er_HandleFlags er = lineConfigToHandleFlags (lo_Config lo)
          \<and> er_EventFlags er = lineConfigToEventFlag (lo_Config lo)
      | IoctlGetLineHandle fd hr \<Rightarrow>
          lo_abi lo \<noteq> 2 \<and> hr_Consumer hr = take (ConsumerSize - 1) (lo_consumer lo)
          \<and> hr_Flags hr = lineConfigToHandleFlags (lo_Config lo)
      | NewWatcher fd h \<Rightarrow> True
      | NewWatcherV1 fds h \<Rightarrow> True
      | SysClose fd \<Rightarrow> True
      | _ \<Rightarrow> False)"

text \<open>The watch call \<open>Chip.WatchLineInfo\<close> issues: that of the chip's ABI.\<close>

definition watchCall :: "Chip \<Rightarrow> int \<Rightarrow> kcall" where
  "watchCall c offset =
     (if co_abi (c_options c) = 1 then IoctlWatchLineInfo (c_f c) (word_of_int offset)
      else IoctlWatchLineInfoV2 (c_f c) (word_of_int offset))"

section \<open>Encoding values and filling buffers\<close>

lemma setLineValues_snoc:
  "setLineValues (vs @ [v]) = LineValues_Set (setLineValues vs) (length vs) v"
  by (simp add: setLineValues_def enumerate_append_eq)

lemma setLineValues_mem:
  "length vs \<le> LinesMax \<Longrightarrow> i \<in> setLineValues vs \<longleftrightarrow> i < length vs \<and> vs ! i \<noteq> 0"
proof (induction vs rule: rev_induct)
  case Nil
  then show ?case by (simp add: setLineValues_def)
next
  case (snoc v vs)
  then show ?case
    by (auto simp: setLineValues_snoc LineValues_Set_def nth_append less_Suc_eq)
qed

lemma fillValues_eq:
  "lines \<le> length vals \<Longrightarrow> fillValues g lines vals = map g [0..<lines] @ drop lines vals"
proof (induction lines)
  case 0
  then show ?case by (simp add: fillValues_def)
next
  case (Suc n)
  then have "fillValues g (Suc n) vals = (map g [0..<n] @ drop n vals)[n := g n]"
    by (simp add: fillValues_def)
  also have "\<dots> = map g [0..<n] @ (drop n vals)[0 := g n]"
    by (simp add: list_update_append)
  also have "drop n vals = vals ! n # drop (Suc n) vals"
    using Suc.prems by (simp add: Cons_nth_drop_Suc)
  finally show ?case by simp
qed

section \<open>Reading values\<close>

lemma Lines_Values_result:
  assumes "Lines_Values k l buf = (k1, None, buf')"
  shows "buf' = map (line_state k (l_vfd l)) [0..<min (length buf) (length (l_offsets l))]
                @ drop (min (length buf) (length (l_offsets l))) buf"
proof -
  let ?m = "min (length buf) (length (l_offsets l))"
  have m: "(if length buf > length (l_offsets l) then length (l_offsets l) else length buf) = ?m"
    by simp
  have le: "?m \<le> length buf" by simp
  show ?thesis
  proof (cases "l_abi l = 1")
    case True
    with assms have ok: "\<not> HandlesMax < ?m"
      and b: "buf' = fillValues (\<lambda>i. uint (map (\<lambda>i. if k_values k (l_vfd l) i then (1::8 word) else 0)
                 [0..<HandlesMax] ! i)) ?m buf"
      unfolding Lines_Values_def uapi_GetLineValues_def Let_def m
      by (auto split: if_splits option.splits)
    have "map (\<lambda>i. uint (map (\<lambda>i. if k_values k (l_vfd l) i then (1::8 word) else 0)
                 [0..<HandlesMax] ! i)) [0..<?m] = map (line_state k (l_vfd l)) [0..<?m]"
      using ok by (auto simp: line_state_def HandlesMax_def LinesMax_def)
    with b fillValues_eq[OF le] show ?thesis by simp
  next
    case False
    with assms have
      b: "buf' = fillValues (LineValues_Get (set (filter (k_values k (l_vfd l)) [0..<LinesMax]))) ?m buf"
      unfolding Lines_Values_def uapi_GetLineValuesV2_def Let_def m
      by (auto split: if_splits option.splits)
    have "map (LineValues_Get (set (filter (k_values k (l_vfd l)) [0..<LinesMax]))) [0..<?m]
          = map (line_state k (l_vfd l)) [0..<?m]"
      by (auto simp: line_state_def LineValues_Get_def)
    with b fillValues_eq[OF le] show ?thesis by simp
  qed
qed

text \<open>
  C6. A successful \<open>Lines.Values\<close> returns a buffer of the length it was given, whose
  first \<open>min (len buffer) (line count)\<close> slots hold the active states the kernel reports
  for the lines of the request, in request order, and whose slots from that index on are
  what they were.
\<close>

theorem Lines_Values_fills_prefix:
  assumes "Lines_Values k l buf = (k1, None, buf')"
  shows "length buf' = length buf
     \<and> take (min (length buf) (length (l_offsets l))) buf'
         = map (line_state k (l_vfd l)) [0..<min (length buf) (length (l_offsets l))]
     \<and> drop (min (length buf) (length (l_offsets l))) buf'
         = drop (min (length buf) (length (l_offsets l))) buf"
proof -
  let ?m = "min (length buf) (length (l_offsets l))"
  note r = Lines_Values_result[OF assms]
  have len: "length (map (line_state k (l_vfd l)) [0..<?m]) = ?m" by simp
  have 1: "length buf' = length buf" by (subst r) (simp del: min_less_iff_conj)
  have 2: "take ?m buf' = map (line_state k (l_vfd l)) [0..<?m]"
    by (subst r) (simp only: take_append len take_all_iff order_refl diff_self_eq_0 take_0 append_Nil2)
  have 3: "drop ?m buf' = drop ?m buf"
    by (subst r) (simp only: drop_append len drop_all order_refl diff_self_eq_0 drop_0 append_Nil)
  from 1 2 3 show ?thesis by blast
qed

theorem Lines_Values_fills_prefix_witness:
  "Lines_Values kernel0 (request_out 2 [1, 2, 3] [0]) [7, 7, 7, 7]
     = (klog kernel0 (IoctlGetLineValuesV2 4), None, [0, 0, 0, 7])
   \<and> length [0, 0, 0, 7::int] = length [7, 7, 7, 7::int]
   \<and> take (min (length [7, 7, 7, 7::int]) (length (l_offsets (request_out 2 [1, 2, 3] [0]))))
        [0, 0, 0, 7::int]
       = map (line_state kernel0 (l_vfd (request_out 2 [1, 2, 3] [0])))
           [0..<min (length [7, 7, 7, 7::int]) (length (l_offsets (request_out 2 [1, 2, 3] [0])))]
   \<and> drop (min (length [7, 7, 7, 7::int]) (length (l_offsets (request_out 2 [1, 2, 3] [0]))))
        [0, 0, 0, 7::int]
       = drop (min (length [7, 7, 7, 7::int]) (length (l_offsets (request_out 2 [1, 2, 3] [0]))))
           [7, 7, 7, 7]"
proof -
  have e: "Lines_Values kernel0 (request_out 2 [1, 2, 3] [0]) [7, 7, 7, 7]
     = (klog kernel0 (IoctlGetLineValuesV2 4), None, [0, 0, 0, 7])"
    by (simp add: Lines_Values_def request_out_def uapi_GetLineValuesV2_def kerr_def
        kernel0_def klog_def fillValues_def LineValues_Get_def upt_conv_Cons)
  from Lines_Values_fills_prefix[OF e] e show ?thesis by blast
qed

section \<open>Writing values\<close>

lemma Lines_SetValues_success:
  assumes "Lines_SetValues k l vals = (k1, l1, None)"
  shows "k1 = (klog k (IoctlSetLineValuesV2 (l_vfd l)
                  (setLineValues (truncateValues (length (l_offsets l)) vals))))
              \<lparr>k_values := (k_values k)(l_vfd l :=
                 (\<lambda>i. i \<in> setLineValues (truncateValues (length (l_offsets l)) vals)))\<rparr>"
    and "l1 = l\<lparr>l_values := truncateValues (length (l_offsets l)) vals\<rparr>"
    and "Direction (l_config l) = LineDirectionOutput" and "\<not> l_closed l"
  using assms
  by (auto simp: Lines_SetValues_def uapi_SetLineValuesV2_def Let_def
      split: if_splits option.splits)

lemma Lines_Values_succeeds:
  assumes "\<not> l_closed l" and "k_res k (valuesCall l) = None"
    and "length (l_offsets l) \<le> HandlesMax"
  shows "fst (snd (Lines_Values k l buf)) = None"
  using assms
  by (auto simp: Lines_Values_def uapi_GetLineValues_def uapi_GetLineValuesV2_def Let_def
      valuesCall_def kerr_def split: if_splits option.splits)

lemma truncateValues_take: "truncateValues n vs = take n vs"
  by (simp add: truncateValues_def)

text \<open>
  C4. On a request of at most \<open>LinesMax\<close> lines, after \<open>Lines.SetValues\<close> has
  succeeded with active states \<open>vals\<close> (each 0 or 1), \<open>Lines.Values\<close> run next on the
  resulting kernel and request, with a buffer of at least the line count and a kernel
  that answers the value query, succeeds and returns in the first line-count slots
  \<open>vals\<close> followed by zeros, cut to the line count: missing values read inactive,
  surplus values are dropped.
\<close>

theorem SetValues_then_Values:
  assumes n: "length (l_offsets l) \<le> LinesMax"
    and vals: "set vals \<subseteq> {0, 1}"
    and setv: "Lines_SetValues k l vals = (k1, l1, None)"
    and kget: "k_res k1 (valuesCall l1) = None"
    and buf: "length (l_offsets l) \<le> length buf"
  shows "fst (snd (Lines_Values k1 l1 buf)) = None
     \<and> take (length (l_offsets l)) (snd (snd (Lines_Values k1 l1 buf)))
         = take (length (l_offsets l)) (vals @ replicate (length (l_offsets l)) 0)"
proof -
  let ?n = "length (l_offsets l)"
  let ?vs = "take ?n vals"
  note s = Lines_SetValues_success[OF setv, unfolded truncateValues_take]
  have l1: "l_offsets l1 = l_offsets l" "l_vfd l1 = l_vfd l" "\<not> l_closed l1"
    using s(2,4) by simp_all
  have ok: "fst (snd (Lines_Values k1 l1 buf)) = None"
    using Lines_Values_succeeds[OF l1(3) kget] n l1(1) by (simp add: HandlesMax_def LinesMax_def)
  obtain k2 buf' where r: "Lines_Values k1 l1 buf = (k2, None, buf')"
    using ok by (cases "Lines_Values k1 l1 buf") auto
  have m: "min (length buf) ?n = ?n" using buf by simp
  have t: "take ?n buf' = map (line_state k1 (l_vfd l)) [0..<?n]"
    using Lines_Values_result[OF r] l1 m by simp
  have st: "line_state k1 (l_vfd l) i = (vals @ replicate ?n 0) ! i" if "i < ?n" for i
  proof -
    have "length ?vs \<le> LinesMax" using n by simp
    then have mem: "i \<in> setLineValues ?vs \<longleftrightarrow> i < length ?vs \<and> ?vs ! i \<noteq> 0"
      by (rule setLineValues_mem)
    have lt: "i < LinesMax" using that n by simp
    have ls: "line_state k1 (l_vfd l) i = (if i \<in> setLineValues ?vs then 1 else 0)"
      by (subst s(1)) (simp add: line_state_def lt klog_def)
    show ?thesis
    proof (cases "i < length vals")
      case True
      then have "vals ! i \<in> {0, 1}" using vals by (meson nth_mem subsetD)
      with True that ls mem show ?thesis by (auto simp: nth_append)
    next
      case False
      with that ls mem show ?thesis by (auto simp: nth_append)
    qed
  qed
  have "take ?n buf' = take ?n (vals @ replicate ?n 0)"
    unfolding t
  proof (rule nth_equalityI)
    show "length (map (line_state k1 (l_vfd l)) [0..<?n]) = length (take ?n (vals @ replicate ?n 0))"
      by simp
  next
    fix i assume "i < length (map (line_state k1 (l_vfd l)) [0..<?n])"
    then have i: "i < ?n" by simp
    then show "map (line_state k1 (l_vfd l)) [0..<?n] ! i = take ?n (vals @ replicate ?n 0) ! i"
      using st[OF i] by (simp del: take_append)
  qed
  with ok r show ?thesis by simp
qed

theorem SetValues_then_Values_witness:
  "length (l_offsets (request_out 2 [1, 2, 3] [])) \<le> LinesMax
   \<and> set [1, 1] \<subseteq> {0, 1::int}
   \<and> snd (snd (Lines_SetValues kernel0 (request_out 2 [1, 2, 3] []) [1, 1])) = None
   \<and> length (l_offsets (request_out 2 [1, 2, 3] [])) \<le> length [7, 7, 7, 7::int]
   \<and> fst (snd (Lines_Values (fst (Lines_SetValues kernel0 (request_out 2 [1, 2, 3] []) [1, 1]))
                  (fst (snd (Lines_SetValues kernel0 (request_out 2 [1, 2, 3] []) [1, 1])))
                  [7, 7, 7, 7])) = None
   \<and> take 3 (snd (snd (Lines_Values
                  (fst (Lines_SetValues kernel0 (request_out 2 [1, 2, 3] []) [1, 1]))
                  (fst (snd (Lines_SetValues kernel0 (request_out 2 [1, 2, 3] []) [1, 1])))
                  [7, 7, 7, 7])))
       = [1, 1, 0]"
proof -
  let ?r = "Lines_SetValues kernel0 (request_out 2 [1, 2, 3] []) [1, 1]"
  have ev: "?r = ((klog kernel0 (IoctlSetLineValuesV2 4 (setLineValues [1, 1])))
                    \<lparr>k_values := (k_values kernel0)(4 := (\<lambda>i. i \<in> setLineValues [1, 1]))\<rparr>,
                  (request_out 2 [1, 2, 3] [])\<lparr>l_values := [1, 1]\<rparr>, None)"
    by (simp add: Lines_SetValues_def request_out_def outputConfig_def uapi_SetLineValuesV2_def
        kerr_def kernel0_def klog_def truncateValues_def Let_def)
  have h1: "length (l_offsets (request_out 2 [1, 2, 3] [])) \<le> LinesMax"
    by (simp add: request_out_def LinesMax_def)
  have h2: "set [1, 1] \<subseteq> {0, 1::int}" by simp
  have h3: "?r = (fst ?r, fst (snd ?r), None)"
    by (simp add: ev)
  have h4: "k_res (fst ?r) (valuesCall (fst (snd ?r))) = None"
    by (simp only: ev fst_conv snd_conv) (simp add: kernel0_def klog_def)
  have h5: "length (l_offsets (request_out 2 [1, 2, 3] [])) \<le> length [7, 7, 7, 7::int]"
    by (simp add: request_out_def)
  have n3: "length (l_offsets (request_out 2 [1, 2, 3] [])) = 3"
    by (simp add: request_out_def)
  have h3s: "snd (snd ?r) = None"
    by (simp add: ev)
  from SetValues_then_Values[OF h1 h2 h3 h4 h5] h1 h2 h3s h5 show ?thesis
    by (simp add: n3)
qed

text \<open>
  What the ABI v2 branch of \<open>Line.SetValue\<close> and \<open>Lines.SetValues\<close> do when the kernel
  accepts: the line takes the active state of the value, missing values leave their
  lines inactive, and the cache holds the values written.
\<close>

lemma Line_SetValue_v2_writes:
  assumes "Direction (l_config l) = LineDirectionOutput" and "\<not> l_closed l"
    and "l_abi l \<noteq> 1"
    and "k_res k (IoctlSetLineValuesV2 (l_vfd l) (NewLineValues [v])) = None"
  shows "snd (snd (Line_SetValue k l v)) = None"
    and "l_values (fst (snd (Line_SetValue k l v))) = [v]"
    and "line_state (fst (Line_SetValue k l v)) (l_vfd l) 0 = (if v = 0 then 0 else 1)"
  using assms
  by (simp_all add: Line_SetValue_def uapi_SetLineValuesV2_def kerr_def klog_def line_state_def
      NewLineValues_def LineValues_Set_def LinesMax_def)

lemma Lines_SetValues_writes:
  assumes "Lines_SetValues k l vals = (k1, l1, None)"
    and "length (l_offsets l) \<le> LinesMax" and "i < length (l_offsets l)"
  shows "line_state k1 (l_vfd l) i = (if i < length vals \<and> vals ! i \<noteq> 0 then 1 else 0)"
    and "l_values l1 = take (length (l_offsets l)) vals"
proof -
  note s = Lines_SetValues_success[OF assms(1), unfolded truncateValues_take]
  have "length (take (length (l_offsets l)) vals) \<le> LinesMax" using assms(2) by simp
  from setLineValues_mem[OF this, of i] assms(2,3)
  show "line_state k1 (l_vfd l) i = (if i < length vals \<and> vals ! i \<noteq> 0 then 1 else 0)"
    by (subst s(1)) (auto simp: line_state_def klog_def)
  show "l_values l1 = take (length (l_offsets l)) vals"
    using s(2) by simp
qed

text \<open>
  C1. On an open ABI v1 output request of one line, \<open>Line.SetValue 1\<close> hands the kernel
  the all-zero handle data: the kernel accepts, the line is left inactive, and the cache
  says \<open>[1]\<close>. On the same request \<open>Lines.SetValues [1]\<close> issues the ABI v2 value call.
\<close>

theorem Line_SetValue_abi1_writes_zeros:
  "snd (snd (Line_SetValue kernel0 (request_out 1 [3] [0]) 1)) = None
   \<and> k_calls (fst (Line_SetValue kernel0 (request_out 1 [3] [0]) 1))
       = [IoctlSetLineValues 4 HandleData0]
   \<and> HandleData0 ! 0 = 0
   \<and> line_state (fst (Line_SetValue kernel0 (request_out 1 [3] [0]) 1)) 4 0 = 0
   \<and> l_values (fst (snd (Line_SetValue kernel0 (request_out 1 [3] [0]) 1))) = [1]
   \<and> k_calls (fst (Lines_SetValues kernel0 (request_out 1 [3] [0]) [1]))
       = [IoctlSetLineValuesV2 4 {0}]"
  by (simp add: Line_SetValue_def Lines_SetValues_def request_out_def outputConfig_def
      uapi_SetLineValues_def uapi_SetLineValuesV2_def kerr_def kernel0_def klog_def
      truncateValues_def setLineValues_def LineValues_Set_def LinesMax_def line_state_def
      HandleData0_def HandlesMax_def)

section \<open>Reconfiguring a request\<close>

lemma RequestLines_isEvent:
  assumes "Chip_RequestLines k c offsets opts = (k1, c1, Inr l)"
  shows "l_isEvent l \<longleftrightarrow> lo_abi (lineOptions c offsets opts) \<noteq> 2 \<and> lo_eh (lineOptions c offsets opts) \<noteq> None"
  using assms
  by (auto simp: Chip_RequestLines_def Let_def split: if_splits prod.splits sum.splits)

lemma RequestLines_request_fields:
  assumes "Chip_RequestLines k c offsets opts = (k1, c1, Inr l)"
  shows "l_abi l = lo_abi (lineOptions c offsets opts)"
    and "l_config l = lo_Config (lineOptions c offsets opts)"
    and "l_values l = lo_values (lineOptions c offsets opts)"
    and "l_offsets l = offsets" and "l_chip l = c_Name c" and "\<not> l_closed l"
    and "l_info l = None"
  using assms
  by (auto simp: Chip_RequestLines_def Let_def split: if_splits sum.splits prod.splits)

text \<open>The request of a single line is the request of the one-element list of lines.\<close>

lemma RequestLine_eq: "Chip_RequestLine k c offset opts = Chip_RequestLines k c [offset] opts"
proof (cases "Chip_RequestLines k c [offset] opts")
  case (fields k1 c1 r)
  show ?thesis
  proof (cases r)
    case (Inl e)
    with fields show ?thesis by (simp add: Chip_RequestLine_def)
  next
    case (Inr ll)
    with fields RequestLines_request_fields(6,7)[of k c "[offset]" opts k1 c1 ll]
    show ?thesis by (simp add: Chip_RequestLine_def)
  qed
qed

lemma Reconfigure_v2_calls:
  assumes "\<not> l_isEvent l" and "\<not> l_closed l" and "l_abi l = 2" and "ropts \<noteq> []"
  shows "new_calls k (fst (baseLine_Reconfigure k l ropts))
     = [IoctlSetLineConfigV2 (l_vfd l)
          (toLineConfigV2 (lo_Config (reconfigOptions l ropts))
             (if Direction (lo_Config (reconfigOptions l ropts)) = LineDirectionOutput
              then setLineValues (lo_values (reconfigOptions l ropts)) else {}))]"
  using assms
  by (auto simp: baseLine_Reconfigure_def Let_def uapi_SetLineConfigV2_def uapi_plain_def
      klog_def new_calls_def split: option.splits)

text \<open>
  What \<open>Reconfigure\<close> does on a request \<open>Chip.RequestLines\<close> created. On the ABI v1
  event path (the effective ABI is not 2 and an event handler was given) the request is
  flagged, and every \<open>Reconfigure\<close>, with or without options, fails with \<open>EINVAL\<close>
  and without a kernel call. A request created under ABI v2 is never flagged: its
  \<open>Reconfigure\<close> without options returns success, and with options it issues the ABI v2
  set-config call.
\<close>

lemma Reconfigure_of_created_request:
  assumes "Chip_RequestLines k c offsets opts = (k1, c1, Inr l)"
  shows "(lo_abi (lineOptions c offsets opts) \<noteq> 2 \<and> lo_eh (lineOptions c offsets opts) \<noteq> None
            \<longrightarrow> baseLine_Reconfigure k2 l ropts = (k2, l, Some EINVAL))
       \<and> (lo_abi (lineOptions c offsets opts) = 2
            \<longrightarrow> baseLine_Reconfigure k2 l [] = (k2, l, None))
       \<and> (lo_abi (lineOptions c offsets opts) = 2 \<and> ropts \<noteq> []
            \<longrightarrow> new_calls k2 (fst (baseLine_Reconfigure k2 l ropts))
                = [IoctlSetLineConfigV2 (l_vfd l)
                    (toLineConfigV2 (lo_Config (reconfigOptions l ropts))
                       (if Direction (lo_Config (reconfigOptions l ropts)) = LineDirectionOutput
                        then setLineValues (lo_values (reconfigOptions l ropts)) else {}))])"
proof -
  note e = RequestLines_isEvent[OF assms]
  note f = RequestLines_request_fields[OF assms]
  have 1: "lo_abi (lineOptions c offsets opts) \<noteq> 2 \<and> lo_eh (lineOptions c offsets opts) \<noteq> None
            \<longrightarrow> baseLine_Reconfigure k2 l ropts = (k2, l, Some EINVAL)"
    using e by (simp add: baseLine_Reconfigure_def)
  have 2: "lo_abi (lineOptions c offsets opts) = 2
            \<longrightarrow> baseLine_Reconfigure k2 l [] = (k2, l, None)"
    using e by (simp add: baseLine_Reconfigure_def)
  have 3: "lo_abi (lineOptions c offsets opts) = 2 \<and> ropts \<noteq> []
            \<longrightarrow> new_calls k2 (fst (baseLine_Reconfigure k2 l ropts))
                = [IoctlSetLineConfigV2 (l_vfd l)
                    (toLineConfigV2 (lo_Config (reconfigOptions l ropts))
                       (if Direction (lo_Config (reconfigOptions l ropts)) = LineDirectionOutput
                        then setLineValues (lo_values (reconfigOptions l ropts)) else {}))]"
    using Reconfigure_v2_calls[of l ropts k2] e f(1,6) by auto
  from 1 2 3 show ?thesis by blast
qed

text \<open>
  C2. The claim: every request created with edge detection enabled, under either ABI
  generation, fails every \<open>Reconfigure\<close> with \<open>EINVAL\<close> and without a kernel call, as
  the doc comment of \<open>Reconfigure\<close> says ("Not valid for lines with edge detection
  enabled") and as the ABI v1 event path does. The code at an ABI v2 chip: a request of
  line 2 for both edges with a handler, made through \<open>RequestLines\<close> or
  \<open>RequestLine\<close>, detects both edges and has its watcher, yet \<open>Reconfigure\<close>
  without options returns success on it, and \<open>Reconfigure\<close> with an option issues one
  kernel call and succeeds.
\<close>

theorem Reconfigure_v2_edge_request_not_refused:
  "(case snd (snd (Chip_RequestLines kernel0 (chip8 2) [2] [WithBothEdges 7])) of
      Inl e \<Rightarrow> False
    | Inr l \<Rightarrow> EdgeDetection (l_config l) = LineEdgeBoth
        \<and> l_watcher l = Some (Watcher 4 (Some 7))
        \<and> baseLine_Reconfigure kernel0 l [] = (kernel0, l, None)
        \<and> snd (snd (baseLine_Reconfigure kernel0 l [AsInput])) = None
        \<and> length (k_calls (fst (baseLine_Reconfigure kernel0 l [AsInput]))) = 1)
   \<and> (case snd (snd (Chip_RequestLine kernel0 (chip8 2) 2 [WithBothEdges 7])) of
      Inl e \<Rightarrow> False
    | Inr l \<Rightarrow> EdgeDetection (l_config l) = LineEdgeBoth
        \<and> l_watcher l = Some (Watcher 4 (Some 7))
        \<and> baseLine_Reconfigure kernel0 l [] = (kernel0, l, None))"
  by (simp add: RequestLine_eq Chip_RequestLines_def lineOptions_def defaultLineOptions_def
      chip8_def WithBothEdges_def AsInput_def lineRequest_def
      truncateValues_def Chip_getLine_def LinesMax_def HandlesMax_def uapi_GetLine_def uapi_newfd_def
      uapi_plain_def kerr_def klog_def kernel0_def LineConfig0_def toLineConfigV2_def
      baseLine_Reconfigure_def reconfigOptions_def uapi_SetLineConfigV2_def Let_def)

text \<open>
  A \<open>Reconfigure\<close> that returns an error returns the request as it was; one that
  succeeds with options caches the merged configuration, and the merged values under
  ABI v2 only.
\<close>

lemma Reconfigure_error_keeps_request:
  assumes "baseLine_Reconfigure k l opts = (k1, l1, Some e)"
  shows "l1 = l"
  using assms
  by (auto simp: baseLine_Reconfigure_def Let_def split: if_splits prod.splits option.splits)

lemma Reconfigure_success:
  assumes "baseLine_Reconfigure k l opts = (k1, l1, None)" and "opts \<noteq> []"
  shows "l_config l1 = lo_Config (reconfigOptions l opts)"
    and "l_abi l \<noteq> 1 \<Longrightarrow> l_values l1 = lo_values (reconfigOptions l opts)"
    and "l_abi l = 1 \<Longrightarrow> l_values l1 = l_values l"
  using assms
  by (auto simp: baseLine_Reconfigure_def Let_def split: if_splits prod.splits option.splits)

text \<open>
  C3. On an open ABI v1 output request with cached values \<open>[0]\<close>,
  \<open>Reconfigure (AsOutput 1)\<close> hands the kernel the default value 1, the kernel accepts,
  and the cached values are still \<open>[0]\<close>; the same call on an ABI v2 request caches
  \<open>[1]\<close>.
\<close>

theorem Reconfigure_abi1_keeps_stale_values:
  "snd (snd (baseLine_Reconfigure kernel0 (request_out 1 [3] [0]) [AsOutput [1]])) = None
   \<and> Direction (lo_Config (reconfigOptions (request_out 1 [3] [0]) [AsOutput [1]]))
       = LineDirectionOutput
   \<and> lo_values (reconfigOptions (request_out 1 [3] [0]) [AsOutput [1]]) = [1]
   \<and> k_calls (fst (baseLine_Reconfigure kernel0 (request_out 1 [3] [0]) [AsOutput [1]]))
       = [IoctlSetLineConfig 4 \<lparr>hc_Flags = {HandleRequestOutput},
                                 hc_DefaultValues = setDefaultValues [1]\<rparr>]
   \<and> setDefaultValues [1] ! 0 = 1
   \<and> l_values (fst (snd (baseLine_Reconfigure kernel0 (request_out 1 [3] [0]) [AsOutput [1]])))
       = [0]
   \<and> l_values (fst (snd (baseLine_Reconfigure kernel0 (request_out 2 [3] [0]) [AsOutput [1]])))
       = [1]"
  by (simp add: baseLine_Reconfigure_def reconfigOptions_def request_out_def outputConfig_def
      AsOutput_def truncateValues_def HandlesMax_def uapi_SetLineConfig_def
      uapi_SetLineConfigV2_def uapi_plain_def kerr_def klog_def kernel0_def LineConfig0_def
      lineConfigToHandleFlags_def setDefaultValues_def HandleData0_def Let_def)

section \<open>A closed request\<close>

lemma Close_closes:
  assumes "baseLine_Close k l = (k1, l1, None)"
  shows "l_closed l1" and "\<not> l_closed l"
  using assms by (auto simp: baseLine_Close_def Let_def split: if_splits)

text \<open>
  C5, as the code has it. On a closed request \<open>Close\<close>, \<open>Value\<close>, \<open>Values\<close> and both
  \<open>Info\<close> fail with the closed error; \<open>SetValue\<close> and \<open>SetValues\<close> fail with the
  permission error when the direction is not output and with the closed error when it
  is; \<open>Reconfigure\<close> fails with \<open>EINVAL\<close> on an event request, returns success when
  given no option, and fails with the closed error otherwise. None of them changes the
  request or calls the kernel.
\<close>

theorem closed_request_operations:
  assumes "l_closed l"
  shows "baseLine_Close k l = (k, l, Some ErrClosed)
     \<and> Line_Value k l = (k, 0, Some ErrClosed)
     \<and> Lines_Values k l buf = (k, Some ErrClosed, buf)
     \<and> Line_Info k l = (k, l, Inl ErrClosed)
     \<and> Lines_Info k l = (k, l, Inl ErrClosed)
     \<and> Line_SetValue k l v
         = (k, l, Some (if Direction (l_config l) = LineDirectionOutput then ErrClosed
                        else ErrPermissionDenied))
     \<and> Lines_SetValues k l vs
         = (k, l, Some (if Direction (l_config l) = LineDirectionOutput then ErrClosed
                        else ErrPermissionDenied))
     \<and> baseLine_Reconfigure k l opts
         = (k, l, if l_isEvent l then Some EINVAL
                  else if opts = [] then None else Some ErrClosed)"
  using assms
  by (simp add: baseLine_Close_def Line_Value_def Lines_Values_def Line_Info_def Lines_Info_def
      Line_SetValue_def Lines_SetValues_def baseLine_Reconfigure_def)

theorem closed_request_operations_witness:
  "l_closed ((request_out 2 [3] [1])\<lparr>l_closed := True\<rparr>)
   \<and> baseLine_Close kernel0 ((request_out 2 [3] [1])\<lparr>l_closed := True\<rparr>)
       = (kernel0, (request_out 2 [3] [1])\<lparr>l_closed := True\<rparr>, Some ErrClosed)
   \<and> Line_Value kernel0 ((request_out 2 [3] [1])\<lparr>l_closed := True\<rparr>)
       = (kernel0, 0, Some ErrClosed)
   \<and> Line_SetValue kernel0 ((request_out 2 [3] [1])\<lparr>l_closed := True\<rparr>) 0
       = (kernel0, (request_out 2 [3] [1])\<lparr>l_closed := True\<rparr>, Some ErrClosed)
   \<and> baseLine_Reconfigure kernel0 ((request_out 2 [3] [1])\<lparr>l_closed := True\<rparr>) [AsInput]
       = (kernel0, (request_out 2 [3] [1])\<lparr>l_closed := True\<rparr>, Some ErrClosed)"
proof -
  let ?l = "(request_out 2 [3] [1])\<lparr>l_closed := True\<rparr>"
  have c: "l_closed ?l" by simp
  have d: "Direction (l_config ?l) = LineDirectionOutput" "\<not> l_isEvent ?l"
    by (simp_all add: request_out_def outputConfig_def)
  from closed_request_operations[OF c, of kernel0 "[]" 0 "[]" "[AsInput]"] c d
  show ?thesis by simp
qed

text \<open>
  The claim C5 as stated fails: after a successful \<open>Close\<close>, \<open>Reconfigure\<close> without
  options succeeds.
\<close>

theorem Reconfigure_after_close_counterexample:
  "(case baseLine_Close kernel0 (request_out 2 [3] [1]) of
      (k1, l1, e) \<Rightarrow> e = None \<and> l_closed l1
         \<and> baseLine_Reconfigure k1 l1 [] = (k1, l1, None))"
  by (simp add: baseLine_Close_def request_out_def baseLine_Reconfigure_def Let_def)

section \<open>Line info\<close>

text \<open>
  C7. \<open>Chip.LineInfo\<close> takes the chip and an offset, and no request. On a closed chip it
  returns the closed error; on an open chip with the offset negative or not below the
  line count, the invalid-offset error; in both cases without a kernel call. Otherwise it
  issues the info query of the chip's cached ABI version (the ABI v1 query for version 1,
  the ABI v2 query for version 2) and returns the kernel's error or the decoded answer.
\<close>

theorem Chip_LineInfo_checks:
  "(c_closed c \<longrightarrow> Chip_LineInfo k c off = (k, Inl ErrClosed))
   \<and> (\<not> c_closed c \<and> (off < 0 \<or> c_lines c \<le> off)
        \<longrightarrow> Chip_LineInfo k c off = (k, Inl ErrInvalidOffset))
   \<and> (\<not> c_closed c \<and> 0 \<le> off \<and> off < c_lines c \<and> co_abi (c_options c) = 1
        \<longrightarrow> Chip_LineInfo k c off
            = (klog k (IoctlGetLineInfo (c_f c) off),
               case kerr k (IoctlGetLineInfo (c_f c) off) of
                 Some e \<Rightarrow> Inl e
               | None \<Rightarrow> Inr (newLineInfo (k_lineinfo k off))))
   \<and> (\<not> c_closed c \<and> 0 \<le> off \<and> off < c_lines c \<and> co_abi (c_options c) = 2
        \<longrightarrow> Chip_LineInfo k c off
            = (klog k (IoctlGetLineInfoV2 (c_f c) off),
               case kerr k (IoctlGetLineInfoV2 (c_f c) off) of
                 Some e \<Rightarrow> Inl e
               | None \<Rightarrow> Inr (newLineInfoV2 (k_lineinfoV2 k off))))"
  by (auto simp: Chip_LineInfo_def uapi_GetLineInfo_def uapi_GetLineInfoV2_def
      split: option.splits)

theorem Chip_LineInfo_checks_witness:
  "Chip_LineInfo kernel0 ((chip8 2)\<lparr>c_closed := True\<rparr>) 3 = (kernel0, Inl ErrClosed)
   \<and> Chip_LineInfo kernel0 (chip8 2) 8 = (kernel0, Inl ErrInvalidOffset)
   \<and> Chip_LineInfo kernel0 (chip8 2) (- 1) = (kernel0, Inl ErrInvalidOffset)
   \<and> Chip_LineInfo kernel_v1 (chip8 1) 3
       = (klog kernel_v1 (IoctlGetLineInfo 3 3), Inr (newLineInfo (k_lineinfo kernel_v1 3)))
   \<and> Chip_LineInfo kernel_v1 (chip8 2) 3
       = (klog kernel_v1 (IoctlGetLineInfoV2 3 3), Inl (Errno 22))
   \<and> Chip_LineInfo kernel0 (chip8 2) 3
       = (klog kernel0 (IoctlGetLineInfoV2 3 3), Inr (newLineInfoV2 (k_lineinfoV2 kernel0 3)))"
  using Chip_LineInfo_checks[of "(chip8 2)\<lparr>c_closed := True\<rparr>" kernel0 3]
    Chip_LineInfo_checks[of "chip8 2" kernel0 8]
    Chip_LineInfo_checks[of "chip8 2" kernel0 "- 1"]
    Chip_LineInfo_checks[of "chip8 1" kernel_v1 3]
    Chip_LineInfo_checks[of "chip8 2" kernel_v1 3]
    Chip_LineInfo_checks[of "chip8 2" kernel0 3]
  by (simp add: chip8_def kerr_def kernel_v1_def kernel0_def)

section \<open>The kernel calls of a request for lines\<close>

lemma new_calls_append: "k_calls k' = k_calls k @ cs \<Longrightarrow> new_calls k k' = cs"
  by (simp add: new_calls_def)

lemma uapi_newfd_calls: "uapi_newfd k c = (k1, r, fd) \<Longrightarrow> k_calls k1 = k_calls k @ [c]"
  by (auto simp: uapi_newfd_def klog_def split: option.splits)

lemma uapi_plain_calls: "uapi_plain k c = (k1, r) \<Longrightarrow> k_calls k1 = k_calls k @ [c]"
  by (auto simp: uapi_plain_def klog_def)

lemma uapi_GetLine_calls:
  "uapi_GetLine k fd lr = (k1, r, n) \<Longrightarrow> k_calls k1 = k_calls k @ [IoctlGetLine fd lr]"
  by (auto simp: uapi_GetLine_def dest!: uapi_newfd_calls split: prod.splits option.splits if_splits)

lemma uapi_GetLineHandle_calls:
  "uapi_GetLineHandle k fd hr = (k1, r, n) \<Longrightarrow> k_calls k1 = k_calls k @ [IoctlGetLineHandle fd hr]"
  by (auto simp: uapi_GetLineHandle_def dest!: uapi_newfd_calls
      split: prod.splits option.splits if_splits)

text \<open>
  The ABI v2 path: the first call is the line request built from the options; what may
  follow is the start of the watcher and the close of the descriptor.
\<close>

lemma getLine_calls_exact:
  assumes "length offsets \<le> LinesMax"
  shows "\<exists>cs. k_calls (fst (Chip_getLine k c offsets lo))
                = k_calls k @ IoctlGetLine (c_f c) (lineRequest lo offsets) # cs
              \<and> list_all (\<lambda>call. (\<exists>fd h. call = NewWatcher fd h) \<or> (\<exists>fd. call = SysClose fd)) cs"
proof -
  obtain k1 e fd where u: "uapi_GetLine k (c_f c) (lineRequest lo offsets) = (k1, e, fd)"
    by (cases "uapi_GetLine k (c_f c) (lineRequest lo offsets)") auto
  note c1 = uapi_GetLine_calls[OF u]
  show ?thesis
    using assms u c1
    by (auto simp: Chip_getLine_def Let_def klog_def dest!: uapi_plain_calls
        split: option.splits prod.splits)
qed

lemma getLine_calls:
  assumes "Chip_getLine k c offsets lo = (k1, r)" and "lo_abi lo = 2"
  shows "\<exists>cs. k_calls k1 = k_calls k @ cs \<and> list_all (request_call lo) cs"
  using assms
  by (auto simp: Chip_getLine_def Let_def request_call_def klog_def toLineConfigV2_def
      lineRequest_def
      dest!: uapi_GetLine_calls uapi_plain_calls
      split: if_splits prod.splits option.splits)

text \<open>The ABI v1 handle path: the handle request built from the options, and nothing else.\<close>

lemma getHandleRequest_calls_exact:
  assumes "length offsets \<le> HandlesMax" and "length (lo_values lo) \<le> HandlesMax"
  shows "k_calls (fst (Chip_getHandleRequest k c offsets lo))
           = k_calls k @ [IoctlGetLineHandle (c_f c) (handleRequest lo offsets)]"
proof -
  obtain k1 e fd where u: "uapi_GetLineHandle k (c_f c) (handleRequest lo offsets) = (k1, e, fd)"
    by (cases "uapi_GetLineHandle k (c_f c) (handleRequest lo offsets)") auto
  note c1 = uapi_GetLineHandle_calls[OF u]
  show ?thesis
    using assms u c1
    by (auto simp: Chip_getHandleRequest_def Let_def split: option.splits)
qed

lemma getHandleRequest_calls:
  assumes "Chip_getHandleRequest k c offsets lo = (k1, r)" and "lo_abi lo \<noteq> 2"
  shows "\<exists>cs. k_calls k1 = k_calls k @ cs \<and> list_all (request_call lo) cs"
  using assms
  by (auto simp: Chip_getHandleRequest_def Let_def request_call_def handleRequest_def
      dest!: uapi_GetLineHandle_calls
      split: if_splits prod.splits option.splits)

text \<open>
  The ABI v1 event path: the loop issues the event requests of the offsets in order, up
  to and including the first the kernel refuses, and of all of them when it succeeds.
\<close>

lemma getEventRequest_loop_exact:
  assumes "getEventRequest_loop k c lo vfd fds i offsets = (k1, r)"
  shows "\<exists>n. n \<le> length offsets \<and> (0 < n \<or> offsets = []) \<and> (\<not> isl r \<longrightarrow> n = length offsets)
           \<and> k_calls k1 = k_calls k
               @ map (\<lambda>off. IoctlGetLineEvent (c_f c) (eventRequest lo off)) (take n offsets)"
  using assms
proof (induction offsets arbitrary: k vfd fds i)
  case Nil
  then show ?case by auto
next
  case (Cons off offs)
  obtain k2 e fd where u: "uapi_newfd k (IoctlGetLineEvent (c_f c) (eventRequest lo off)) = (k2, e, fd)"
    by (cases "uapi_newfd k (IoctlGetLineEvent (c_f c) (eventRequest lo off))") auto
  have c2: "k_calls k2 = k_calls k @ [IoctlGetLineEvent (c_f c) (eventRequest lo off)]"
    by (rule uapi_newfd_calls[OF u])
  show ?case
  proof (cases e)
    case (Some err)
    with Cons.prems u have "k1 = k2" and "isl r"
      by (auto simp: uapi_GetLineEvent_def Let_def)
    with c2 show ?thesis by (intro exI[of _ 1]) simp
  next
    case None
    with Cons.prems u have
      "getEventRequest_loop k2 c lo (if i = 0 then fd else vfd) (AList.update fd off fds) (Suc i) offs
         = (k1, r)"
      by (simp add: uapi_GetLineEvent_def Let_def)
    from Cons.IH[OF this] obtain n where
      n: "n \<le> length offs" "\<not> isl r \<longrightarrow> n = length offs"
        "k_calls k1 = k_calls k2
           @ map (\<lambda>off. IoctlGetLineEvent (c_f c) (eventRequest lo off)) (take n offs)"
      by blast
    with c2 show ?thesis by (intro exI[of _ "Suc n"]) simp
  qed
qed

lemma getEventRequest_loop_calls:
  assumes "getEventRequest_loop k c lo vfd fds i offsets = (k1, r)" and "lo_abi lo \<noteq> 2"
  shows "\<exists>cs. k_calls k1 = k_calls k @ cs \<and> list_all (request_call lo) cs"
proof -
  from getEventRequest_loop_exact[OF assms(1)] obtain n where
    "k_calls k1 = k_calls k
       @ map (\<lambda>off. IoctlGetLineEvent (c_f c) (eventRequest lo off)) (take n offsets)"
    by blast
  moreover have "list_all (request_call lo)
      (map (\<lambda>off. IoctlGetLineEvent (c_f c) (eventRequest lo off)) (take n offsets))"
    using assms(2) by (simp add: list_all_iff request_call_def eventRequest_def)
  ultimately show ?thesis by blast
qed

lemma close_all_calls:
  "\<exists>cs. k_calls (foldl (\<lambda>k' fd. klog k' (SysClose fd)) k fds) = k_calls k @ cs
        \<and> list_all (request_call lo) cs"
proof (induction fds arbitrary: k)
  case Nil
  then show ?case by simp
next
  case (Cons fd fds)
  from Cons[of "klog k (SysClose fd)"] obtain cs where
    "k_calls (foldl (\<lambda>k' fd. klog k' (SysClose fd)) (klog k (SysClose fd)) fds)
       = k_calls (klog k (SysClose fd)) @ cs" "list_all (request_call lo) cs" by blast
  moreover have "request_call lo (SysClose fd)" by (simp add: request_call_def)
  ultimately show ?case by (simp add: klog_def)
qed

lemma getEventRequest_split:
  assumes "Chip_getEventRequest k c offsets lo = (k1, r)"
  shows "\<exists>k2 r2 cs. getEventRequest_loop k c lo 0 [] 0 offsets = (k2, r2)
           \<and> k_calls k1 = k_calls k2 @ cs \<and> list_all (request_call lo) cs
           \<and> (\<not> isl r \<longrightarrow> \<not> isl r2)"
proof (cases "getEventRequest_loop k c lo 0 [] 0 offsets")
  case (Pair k2 r2)
  show ?thesis
  proof (cases r2)
    case (Inl e)
    with Pair assms have "k1 = k2" "isl r" by (auto simp: Chip_getEventRequest_def)
    with Pair show ?thesis by auto
  next
    case (Inr p)
    obtain vfd fds where p: "p = (vfd, fds)" by (cases p)
    obtain k3 e where u: "uapi_plain k2 (NewWatcherV1 fds (lo_eh lo)) = (k3, e)"
      by (cases "uapi_plain k2 (NewWatcherV1 fds (lo_eh lo))")
    have c3: "k_calls k3 = k_calls k2 @ [NewWatcherV1 fds (lo_eh lo)]"
      by (rule uapi_plain_calls[OF u])
    have w: "request_call lo (NewWatcherV1 fds (lo_eh lo))" by (simp add: request_call_def)
    show ?thesis
    proof (cases e)
      case None
      with Pair Inr p u assms have "k1 = k3" by (simp add: Chip_getEventRequest_def)
      with Pair Inr c3 w show ?thesis by auto
    next
      case (Some err)
      with Pair Inr p u assms
      have "k1 = foldl (\<lambda>k' fd. klog k' (SysClose fd)) k3 (map fst fds)"
        by (simp add: Chip_getEventRequest_def)
      with close_all_calls[of k3 "map fst fds" lo] obtain ds where
        "k_calls k1 = k_calls k3 @ ds" "list_all (request_call lo) ds" by auto
      with Pair Inr c3 w show ?thesis by auto
    qed
  qed
qed

lemma getEventRequest_calls_exact:
  assumes "Chip_getEventRequest k c offsets lo = (k1, r)"
  shows "\<exists>n cs. n \<le> length offsets \<and> (0 < n \<or> offsets = []) \<and> (\<not> isl r \<longrightarrow> n = length offsets)
           \<and> k_calls k1 = k_calls k
               @ map (\<lambda>off. IoctlGetLineEvent (c_f c) (eventRequest lo off)) (take n offsets) @ cs"
proof -
  from getEventRequest_split[OF assms] obtain k2 r2 cs where
    l: "getEventRequest_loop k c lo 0 [] 0 offsets = (k2, r2)"
    and c: "k_calls k1 = k_calls k2 @ cs" and i: "\<not> isl r \<longrightarrow> \<not> isl r2"
    by blast
  from getEventRequest_loop_exact[OF l] i c show ?thesis by auto
qed

lemma getEventRequest_calls:
  assumes "Chip_getEventRequest k c offsets lo = (k1, r)" and "lo_abi lo \<noteq> 2"
  shows "\<exists>cs. k_calls k1 = k_calls k @ cs \<and> list_all (request_call lo) cs"
proof -
  from getEventRequest_split[OF assms(1)] obtain k2 r2 cs where
    l: "getEventRequest_loop k c lo 0 [] 0 offsets = (k2, r2)"
    and c: "k_calls k1 = k_calls k2 @ cs" "list_all (request_call lo) cs"
    by blast
  from getEventRequest_loop_calls[OF l assms(2)] c show ?thesis by auto
qed


text \<open>
  \<open>Chip.RequestLines\<close> returns the chip as it was handed it, whatever the outcome; a
  request with an offset out of range issues no call; a request that succeeds had its
  offsets in range and within the size of the request struct.
\<close>

lemma RequestLines_chip: "fst (snd (Chip_RequestLines k c offsets opts)) = c"
  by (auto simp: Chip_RequestLines_def Let_def split: sum.splits prod.splits)

lemma RequestLines_out_of_range:
  assumes "\<exists>off \<in> set offsets. off < 0 \<or> off \<ge> c_lines c"
  shows "Chip_RequestLines k c offsets opts = (k, c, Inl ErrInvalidOffset)"
  using assms by (simp add: Chip_RequestLines_def)

lemma lineOptions_values_length:
  "length (lo_values (lineOptions c offsets opts)) \<le> length offsets"
  by (simp add: lineOptions_def Let_def truncateValues_def)

lemma RequestLines_success_bounds:
  assumes "Chip_RequestLines k c offsets opts = (k1, c1, Inr l)"
  shows "\<forall>off \<in> set offsets. 0 \<le> off \<and> off < c_lines c"
    and "lo_abi (lineOptions c offsets opts) = 2 \<Longrightarrow> length offsets \<le> LinesMax"
    and "lo_abi (lineOptions c offsets opts) \<noteq> 2 \<Longrightarrow> lo_eh (lineOptions c offsets opts) = None
           \<Longrightarrow> length offsets \<le> HandlesMax"
  using assms
  by (auto simp: Chip_RequestLines_def Chip_getLine_def Chip_getHandleRequest_def Let_def
      split: if_splits sum.splits prod.splits)

text \<open>
  The dispatch of \<open>Chip.RequestLines\<close> on the effective ABI version, for offsets in
  range: version 2 issues the line request first; any other version issues the handle
  request and nothing else when no event handler was given, and the event requests of the
  offsets, first offset first, when one was.
\<close>

lemma RequestLines_dispatch:
  assumes "\<forall>off \<in> set offsets. 0 \<le> off \<and> off < c_lines c"
  shows "lo_abi (lineOptions c offsets opts) = 2 \<Longrightarrow> length offsets \<le> LinesMax \<Longrightarrow>
           take 1 (new_calls k (fst (Chip_RequestLines k c offsets opts)))
             = [IoctlGetLine (c_f c) (lineRequest (lineOptions c offsets opts) offsets)]"
    and "lo_abi (lineOptions c offsets opts) \<noteq> 2 \<Longrightarrow> lo_eh (lineOptions c offsets opts) = None \<Longrightarrow>
           length offsets \<le> HandlesMax \<Longrightarrow>
           new_calls k (fst (Chip_RequestLines k c offsets opts))
             = [IoctlGetLineHandle (c_f c) (handleRequest (lineOptions c offsets opts) offsets)]"
    and "lo_abi (lineOptions c offsets opts) \<noteq> 2 \<Longrightarrow> lo_eh (lineOptions c offsets opts) \<noteq> None \<Longrightarrow>
           offsets \<noteq> [] \<Longrightarrow>
           take 1 (new_calls k (fst (Chip_RequestLines k c offsets opts)))
             = [IoctlGetLineEvent (c_f c) (eventRequest (lineOptions c offsets opts) (hd offsets))]"
    and "lo_abi (lineOptions c offsets opts) \<noteq> 2 \<Longrightarrow> lo_eh (lineOptions c offsets opts) \<noteq> None \<Longrightarrow>
           \<not> isl (snd (snd (Chip_RequestLines k c offsets opts))) \<Longrightarrow>
           take (length offsets) (new_calls k (fst (Chip_RequestLines k c offsets opts)))
             = map (\<lambda>off. IoctlGetLineEvent (c_f c) (eventRequest (lineOptions c offsets opts) off))
                 offsets"
proof -
  let ?lo = "lineOptions c offsets opts"
  let ?R = "Chip_RequestLines k c offsets opts"
  have inr: "\<not> (\<exists>off \<in> set offsets. off < 0 \<or> off \<ge> c_lines c)"
    using assms by auto
  show "take 1 (new_calls k (fst ?R)) = [IoctlGetLine (c_f c) (lineRequest ?lo offsets)]"
    if a: "lo_abi ?lo = 2" and n: "length offsets \<le> LinesMax"
  proof -
    have "fst ?R = fst (Chip_getLine k c offsets ?lo)"
      using inr a by (auto simp: Chip_RequestLines_def Let_def split: sum.splits prod.splits)
    with getLine_calls_exact[OF n, of k c ?lo] show ?thesis
      by (auto simp: new_calls_def)
  qed
  show "new_calls k (fst ?R) = [IoctlGetLineHandle (c_f c) (handleRequest ?lo offsets)]"
    if a: "lo_abi ?lo \<noteq> 2" and h: "lo_eh ?lo = None" and n: "length offsets \<le> HandlesMax"
  proof -
    have "fst ?R = fst (Chip_getHandleRequest k c offsets ?lo)"
      using inr a h by (auto simp: Chip_RequestLines_def Let_def split: sum.splits prod.splits)
    moreover have "length (lo_values ?lo) \<le> HandlesMax"
      using lineOptions_values_length[of c offsets opts] n by simp
    ultimately show ?thesis
      using getHandleRequest_calls_exact[OF n, of ?lo k c] by (simp add: new_calls_def)
  qed
  have ev: "\<exists>n cs. n \<le> length offsets \<and> (0 < n \<or> offsets = [])
              \<and> (\<not> isl (snd (snd ?R)) \<longrightarrow> n = length offsets)
              \<and> new_calls k (fst ?R)
                  = map (\<lambda>off. IoctlGetLineEvent (c_f c) (eventRequest ?lo off)) (take n offsets) @ cs"
    if a: "lo_abi ?lo \<noteq> 2" and h: "lo_eh ?lo \<noteq> None"
  proof -
    obtain k1 r where g: "Chip_getEventRequest k c offsets ?lo = (k1, r)"
      by (cases "Chip_getEventRequest k c offsets ?lo")
    have "fst ?R = k1" and "\<not> isl (snd (snd ?R)) \<longrightarrow> \<not> isl r"
      using inr a h g by (auto simp: Chip_RequestLines_def Let_def split: sum.splits prod.splits)
    with getEventRequest_calls_exact[OF g] show ?thesis
      by (auto simp: new_calls_def)
  qed
  show "take 1 (new_calls k (fst ?R)) = [IoctlGetLineEvent (c_f c) (eventRequest ?lo (hd offsets))]"
    if a: "lo_abi ?lo \<noteq> 2" and h: "lo_eh ?lo \<noteq> None" and ne: "offsets \<noteq> []"
  proof -
    from ev[OF a h] ne obtain n cs where n: "0 < n"
      and c: "new_calls k (fst ?R)
                = map (\<lambda>off. IoctlGetLineEvent (c_f c) (eventRequest ?lo off)) (take n offsets) @ cs"
      by auto
    from ne obtain off offs where o: "offsets = off # offs" by (cases offsets) auto
    from n obtain m where m: "n = Suc m" by (cases n) auto
    show ?thesis using c by (simp add: o m)
  qed
  show "take (length offsets) (new_calls k (fst ?R))
          = map (\<lambda>off. IoctlGetLineEvent (c_f c) (eventRequest ?lo off)) offsets"
    if a: "lo_abi ?lo \<noteq> 2" and h: "lo_eh ?lo \<noteq> None" and s: "\<not> isl (snd (snd ?R))"
  proof -
    from ev[OF a h] s obtain cs where
      "new_calls k (fst ?R)
         = map (\<lambda>off. IoctlGetLineEvent (c_f c) (eventRequest ?lo off)) offsets @ cs"
      by auto
    then show ?thesis by simp
  qed
qed

lemma RequestLines_calls:
  "list_all (request_call (lineOptions c offsets opts))
     (new_calls k (fst (Chip_RequestLines k c offsets opts)))"
proof -
  let ?lo = "lineOptions c offsets opts"
  have "\<exists>cs. k_calls (fst (Chip_RequestLines k c offsets opts)) = k_calls k @ cs
           \<and> list_all (request_call ?lo) cs"
  proof (cases "\<exists>off \<in> set offsets. off < 0 \<or> off \<ge> c_lines c")
    case True
    then show ?thesis by (simp add: Chip_RequestLines_def)
  next
    case False
    note inrange = this
    show ?thesis
    proof (cases "lo_abi ?lo = 2")
      case True
      obtain k1 r where g: "Chip_getLine k c offsets ?lo = (k1, r)"
        by (cases "Chip_getLine k c offsets ?lo")
      from inrange True g have "fst (Chip_RequestLines k c offsets opts) = k1"
        by (auto simp: Chip_RequestLines_def Let_def split: sum.splits prod.splits)
      with getLine_calls[OF g True] show ?thesis by simp
    next
      case False
      show ?thesis
      proof (cases "lo_eh ?lo \<noteq> None")
        case True
        obtain k1 r where g: "Chip_getEventRequest k c offsets ?lo = (k1, r)"
          by (cases "Chip_getEventRequest k c offsets ?lo")
        from inrange False True g have "fst (Chip_RequestLines k c offsets opts) = k1"
          by (auto simp: Chip_RequestLines_def Let_def split: sum.splits prod.splits)
        with getEventRequest_calls[OF g False] show ?thesis by simp
      next
        case noeh: False
        obtain k1 r where g: "Chip_getHandleRequest k c offsets ?lo = (k1, r)"
          by (cases "Chip_getHandleRequest k c offsets ?lo")
        from inrange False noeh g have "fst (Chip_RequestLines k c offsets opts) = k1"
          by (auto simp: Chip_RequestLines_def Let_def split: sum.splits prod.splits)
        with getHandleRequest_calls[OF g False] show ?thesis by simp
      qed
    qed
  qed
  then show ?thesis by (auto simp: new_calls_def)
qed

lemma foldl_keeps_field:
  "\<forall>opt \<in> set opts. \<forall>lo. f (opt lo) = f lo \<Longrightarrow> f (foldl (\<lambda>lo opt. opt lo) lo0 opts) = f lo0"
  by (induction opts arbitrary: lo0) auto


section \<open>The effective options of a request\<close>

lemma lineOptions_keeps_abi:
  "\<forall>opt \<in> set opts. \<forall>lo. lo_abi (opt lo) = lo_abi lo
     \<Longrightarrow> lo_abi (lineOptions c offsets opts) = co_abi (c_options c)"
  using foldl_keeps_field[of opts lo_abi "defaultLineOptions c"]
  by (simp add: lineOptions_def Let_def defaultLineOptions_def)

text \<open>
  C8. The effective options of \<open>Chip.RequestLines\<close> are the chip's defaults (consumer,
  configuration, ABI version) when no option is given. Whatever one reads off the options
  (\<open>f\<close>: the consumer, the ABI version, the configuration or any one field or flag of
  it, such as its bias) that no option of the caller changes has the value it has in the
  chip's defaults; whatever an option sets to a value \<open>x\<close> (\<open>g\<close>) and no later option
  changes has the value \<open>x\<close>, whatever the defaults and the earlier options said. The
  method returns the chip exactly as it received it, whatever the outcome. The request
  created carries the effective ABI version, configuration and values, and the kernel
  calls that created it are those of the generation the effective version chooses, built
  from the effective consumer, configuration and values.
\<close>

theorem RequestLines_effective_options:
  "lineOptions c offsets [] = defaultLineOptions c
   \<and> lo_consumer (defaultLineOptions c) = co_consumer (c_options c)
   \<and> lo_Config (defaultLineOptions c) = co_Config (c_options c)
   \<and> lo_abi (defaultLineOptions c) = co_abi (c_options c)
   \<and> ((\<forall>opt \<in> set opts. \<forall>lo. f (opt lo) = f lo) \<and> (\<forall>lo vs. f (lo\<lparr>lo_values := vs\<rparr>) = f lo)
        \<longrightarrow> f (lineOptions c offsets opts) = f (defaultLineOptions c))
   \<and> ((\<forall>lo. g (opt lo) = x) \<and> (\<forall>opt' \<in> set later. \<forall>lo. g (opt' lo) = g lo)
          \<and> (\<forall>lo vs. g (lo\<lparr>lo_values := vs\<rparr>) = g lo)
        \<longrightarrow> g (lineOptions c offsets (earlier @ opt # later)) = x)
   \<and> fst (snd (Chip_RequestLines k c offsets opts)) = c
   \<and> (Chip_RequestLines k c offsets opts = (k1, c1, Inr l)
        \<longrightarrow> l_abi l = lo_abi (lineOptions c offsets opts)
          \<and> l_config l = lo_Config (lineOptions c offsets opts)
          \<and> l_values l = lo_values (lineOptions c offsets opts)
          \<and> list_all (request_call (lineOptions c offsets opts)) (new_calls k k1)
          \<and> (lo_abi (lineOptions c offsets opts) = 2
               \<longrightarrow> take 1 (new_calls k k1)
                   = [IoctlGetLine (c_f c) (lineRequest (lineOptions c offsets opts) offsets)])
          \<and> (lo_abi (lineOptions c offsets opts) \<noteq> 2 \<and> lo_eh (lineOptions c offsets opts) = None
               \<longrightarrow> new_calls k k1
                   = [IoctlGetLineHandle (c_f c) (handleRequest (lineOptions c offsets opts) offsets)])
          \<and> (lo_abi (lineOptions c offsets opts) \<noteq> 2 \<and> lo_eh (lineOptions c offsets opts) \<noteq> None
               \<longrightarrow> take (length offsets) (new_calls k k1)
                   = map (\<lambda>off. IoctlGetLineEvent (c_f c)
                                  (eventRequest (lineOptions c offsets opts) off)) offsets))"
proof -
  let ?lo = "lineOptions c offsets opts"
  have 0: "lineOptions c offsets [] = defaultLineOptions c"
    by (simp add: lineOptions_def defaultLineOptions_def truncateValues_def)
  have d: "lo_consumer (defaultLineOptions c) = co_consumer (c_options c)"
    "lo_Config (defaultLineOptions c) = co_Config (c_options c)"
    "lo_abi (defaultLineOptions c) = co_abi (c_options c)"
    by (simp_all add: defaultLineOptions_def)
  have keep: "(\<forall>opt \<in> set opts. \<forall>lo. f (opt lo) = f lo) \<and> (\<forall>lo vs. f (lo\<lparr>lo_values := vs\<rparr>) = f lo)
        \<longrightarrow> f ?lo = f (defaultLineOptions c)"
  proof
    assume h: "(\<forall>opt \<in> set opts. \<forall>lo. f (opt lo) = f lo) \<and> (\<forall>lo vs. f (lo\<lparr>lo_values := vs\<rparr>) = f lo)"
    then have "f (foldl (\<lambda>lo opt. opt lo) (defaultLineOptions c) opts) = f (defaultLineOptions c)"
      by (intro foldl_keeps_field) blast
    with h show "f ?lo = f (defaultLineOptions c)"
      by (simp add: lineOptions_def Let_def)
  qed
  have win: "(\<forall>lo. g (opt lo) = x) \<and> (\<forall>opt' \<in> set later. \<forall>lo. g (opt' lo) = g lo)
          \<and> (\<forall>lo vs. g (lo\<lparr>lo_values := vs\<rparr>) = g lo)
        \<longrightarrow> g (lineOptions c offsets (earlier @ opt # later)) = x"
  proof
    assume h: "(\<forall>lo. g (opt lo) = x) \<and> (\<forall>opt' \<in> set later. \<forall>lo. g (opt' lo) = g lo)
          \<and> (\<forall>lo vs. g (lo\<lparr>lo_values := vs\<rparr>) = g lo)"
    then have "g (foldl (\<lambda>lo opt. opt lo)
                 (opt (foldl (\<lambda>lo opt. opt lo) (defaultLineOptions c) earlier)) later)
               = g (opt (foldl (\<lambda>lo opt. opt lo) (defaultLineOptions c) earlier))"
      by (intro foldl_keeps_field) blast
    with h show "g (lineOptions c offsets (earlier @ opt # later)) = x"
      by (simp add: lineOptions_def Let_def)
  qed
  have chip: "fst (snd (Chip_RequestLines k c offsets opts)) = c"
    by (rule RequestLines_chip)
  have req: "Chip_RequestLines k c offsets opts = (k1, c1, Inr l)
        \<longrightarrow> l_abi l = lo_abi ?lo \<and> l_config l = lo_Config ?lo \<and> l_values l = lo_values ?lo
          \<and> list_all (request_call ?lo) (new_calls k k1)
          \<and> (lo_abi ?lo = 2
               \<longrightarrow> take 1 (new_calls k k1) = [IoctlGetLine (c_f c) (lineRequest ?lo offsets)])
          \<and> (lo_abi ?lo \<noteq> 2 \<and> lo_eh ?lo = None
               \<longrightarrow> new_calls k k1 = [IoctlGetLineHandle (c_f c) (handleRequest ?lo offsets)])
          \<and> (lo_abi ?lo \<noteq> 2 \<and> lo_eh ?lo \<noteq> None
               \<longrightarrow> take (length offsets) (new_calls k k1)
                   = map (\<lambda>off. IoctlGetLineEvent (c_f c) (eventRequest ?lo off)) offsets)"
  proof
    assume r: "Chip_RequestLines k c offsets opts = (k1, c1, Inr l)"
    note fl = RequestLines_request_fields[OF r]
    note b = RequestLines_success_bounds[OF r]
    note dsp = RequestLines_dispatch[OF b(1), of opts k]
    have k1: "fst (Chip_RequestLines k c offsets opts) = k1"
      and ok: "\<not> isl (snd (snd (Chip_RequestLines k c offsets opts)))"
      using r by simp_all
    have calls: "list_all (request_call ?lo) (new_calls k k1)"
      using RequestLines_calls[of c offsets opts k] k1 by simp
    have v2: "lo_abi ?lo = 2
        \<longrightarrow> take 1 (new_calls k k1) = [IoctlGetLine (c_f c) (lineRequest ?lo offsets)]"
      using dsp(1) b(2) k1 by auto
    have h: "lo_abi ?lo \<noteq> 2 \<and> lo_eh ?lo = None
        \<longrightarrow> new_calls k k1 = [IoctlGetLineHandle (c_f c) (handleRequest ?lo offsets)]"
      using dsp(2) b(3) k1 by auto
    have e: "lo_abi ?lo \<noteq> 2 \<and> lo_eh ?lo \<noteq> None
        \<longrightarrow> take (length offsets) (new_calls k k1)
            = map (\<lambda>off. IoctlGetLineEvent (c_f c) (eventRequest ?lo off)) offsets"
      using dsp(4) ok k1 by auto
    from fl(1-3) calls v2 h e
    show "l_abi l = lo_abi ?lo \<and> l_config l = lo_Config ?lo \<and> l_values l = lo_values ?lo
          \<and> list_all (request_call ?lo) (new_calls k k1)
          \<and> (lo_abi ?lo = 2
               \<longrightarrow> take 1 (new_calls k k1) = [IoctlGetLine (c_f c) (lineRequest ?lo offsets)])
          \<and> (lo_abi ?lo \<noteq> 2 \<and> lo_eh ?lo = None
               \<longrightarrow> new_calls k k1 = [IoctlGetLineHandle (c_f c) (handleRequest ?lo offsets)])
          \<and> (lo_abi ?lo \<noteq> 2 \<and> lo_eh ?lo \<noteq> None
               \<longrightarrow> take (length offsets) (new_calls k k1)
                   = map (\<lambda>off. IoctlGetLineEvent (c_f c) (eventRequest ?lo off)) offsets)"
      by blast
  qed
  from 0 d keep win chip req show ?thesis by blast
qed


theorem RequestLines_effective_options_witness:
  "Bias (co_Config (c_options (chip8_with pullUpConfig))) = LineBiasPullUp
   \<and> Bias (lo_Config (lineOptions (chip8_with pullUpConfig) [2] [AsInput])) = LineBiasPullUp
   \<and> lo_consumer (lineOptions (chip8_with pullUpConfig) [2] [AsInput]) = ''gpiod-1''
   \<and> lo_abi (lineOptions (chip8_with pullUpConfig) [2] [AsInput]) = 2
   \<and> Direction (co_Config (c_options (chip8_with outputConfig))) = LineDirectionOutput
   \<and> Direction (lo_Config (lineOptions (chip8_with outputConfig) [2]
        ([WithConsumer ''a''] @ AsInput # [WithConsumer ''gpiomon''])))
       = LineDirectionInput
   \<and> lo_consumer (lineOptions (chip8_with outputConfig) [2]
        ([WithConsumer ''a''] @ WithConsumer ''gpiomon'' # [AsInput]))
       = ''gpiomon''
   \<and> fst (snd (Chip_RequestLines kernel0 (chip8_with pullUpConfig) [2] [AsInput]))
       = chip8_with pullUpConfig
   \<and> \<not> isl (snd (snd (Chip_RequestLines kernel0 (chip8_with pullUpConfig) [2] [AsInput])))
   \<and> Bias (l_config (projr (snd (snd
        (Chip_RequestLines kernel0 (chip8_with pullUpConfig) [2] [AsInput])))))
       = LineBiasPullUp
   \<and> l_abi (projr (snd (snd (Chip_RequestLines kernel0 (chip8_with pullUpConfig) [2] [AsInput]))))
       = 2
   \<and> take 1 (new_calls kernel0
        (fst (Chip_RequestLines kernel0 (chip8_with pullUpConfig) [2] [AsInput])))
       = [IoctlGetLine 3 (lineRequest (lineOptions (chip8_with pullUpConfig) [2] [AsInput]) [2])]"
proof -
  let ?P = "chip8_with pullUpConfig"
  let ?O = "chip8_with outputConfig"
  let ?R = "Chip_RequestLines kernel0 ?P [2] [AsInput]"
  have d: "co_consumer (c_options ?P) = ''gpiod-1''" "co_abi (c_options ?P) = 2"
    "Bias (co_Config (c_options ?P)) = LineBiasPullUp" "c_f ?P = 3"
    "Direction (co_Config (c_options ?O)) = LineDirectionOutput"
    by (simp_all add: chip8_with_def pullUpConfig_def outputConfig_def)
  have kb: "(\<forall>opt \<in> set [AsInput]. \<forall>lo. Bias (lo_Config (opt lo)) = Bias (lo_Config lo))
      \<and> (\<forall>lo vs. Bias (lo_Config (lo\<lparr>lo_values := vs\<rparr>)) = Bias (lo_Config lo))"
    and kc: "(\<forall>opt \<in> set [AsInput]. \<forall>lo. lo_consumer (opt lo) = lo_consumer lo)
      \<and> (\<forall>lo vs. lo_consumer (lo\<lparr>lo_values := vs\<rparr>) = lo_consumer lo)"
    and ka: "(\<forall>opt \<in> set [AsInput]. \<forall>lo. lo_abi (opt lo) = lo_abi lo)
      \<and> (\<forall>lo vs. lo_abi (lo\<lparr>lo_values := vs\<rparr>) = lo_abi lo)"
    by (simp_all add: AsInput_def)
  have wd: "(\<forall>lo. Direction (lo_Config (AsInput lo)) = LineDirectionInput)
      \<and> (\<forall>opt' \<in> set [WithConsumer ''gpiomon''].
            \<forall>lo. Direction (lo_Config (opt' lo)) = Direction (lo_Config lo))
      \<and> (\<forall>lo vs. Direction (lo_Config (lo\<lparr>lo_values := vs\<rparr>)) = Direction (lo_Config lo))"
    and wc: "(\<forall>lo. lo_consumer (WithConsumer ''gpiomon'' lo) = ''gpiomon'')
      \<and> (\<forall>opt' \<in> set [AsInput]. \<forall>lo. lo_consumer (opt' lo) = lo_consumer lo)
      \<and> (\<forall>lo vs. lo_consumer (lo\<lparr>lo_values := vs\<rparr>) = lo_consumer lo)"
    by (simp_all add: AsInput_def WithConsumer_def)
  have i: "\<not> isl (snd (snd ?R))"
    by (simp add: Chip_RequestLines_def lineOptions_def defaultLineOptions_def chip8_with_def
        AsInput_def truncateValues_def Chip_getLine_def LinesMax_def uapi_GetLine_def
        uapi_newfd_def kerr_def klog_def kernel0_def pullUpConfig_def LineConfig0_def
        lineRequest_def toLineConfigV2_def Let_def)
  have r: "?R = (fst ?R, fst (snd ?R), Inr (projr (snd (snd ?R))))"
    using i by (simp add: prod_eq_iff)
  note A = RequestLines_effective_options[where c = ?P and offsets = "[2]" and opts = "[AsInput]"]
  note dflt = A[THEN conjunct2]
  have 1: "Bias (lo_Config (lineOptions ?P [2] [AsInput])) = LineBiasPullUp"
    using A[where f = "\<lambda>lo. Bias (lo_Config lo)", THEN conjunct2, THEN conjunct2, THEN conjunct2,
        THEN conjunct2, THEN conjunct1, THEN mp, OF kb]
      dflt[THEN conjunct2, THEN conjunct1] d(3) by simp
  have 2: "lo_consumer (lineOptions ?P [2] [AsInput]) = ''gpiod-1''"
    using A[where f = lo_consumer, THEN conjunct2, THEN conjunct2, THEN conjunct2,
        THEN conjunct2, THEN conjunct1, THEN mp, OF kc] dflt[THEN conjunct1] d(1) by simp
  have 3: "lo_abi (lineOptions ?P [2] [AsInput]) = 2"
    using A[where f = lo_abi, THEN conjunct2, THEN conjunct2, THEN conjunct2,
        THEN conjunct2, THEN conjunct1, THEN mp, OF ka]
      dflt[THEN conjunct2, THEN conjunct2, THEN conjunct1] d(2) by simp
  note B = RequestLines_effective_options[where c = ?O and offsets = "[2]"
      and earlier = "[WithConsumer ''a'']" and later = "[WithConsumer ''gpiomon'']"
      and opt = AsInput and g = "\<lambda>lo. Direction (lo_Config lo)" and x = LineDirectionInput]
  have 4: "Direction (lo_Config (lineOptions ?O [2]
        ([WithConsumer ''a''] @ AsInput # [WithConsumer ''gpiomon''])))
       = LineDirectionInput"
    by (rule B[THEN conjunct2, THEN conjunct2, THEN conjunct2, THEN conjunct2, THEN conjunct2,
        THEN conjunct1, THEN mp, OF wd])
  note C = RequestLines_effective_options[where c = ?O and offsets = "[2]"
      and earlier = "[WithConsumer ''a'']" and later = "[AsInput]"
      and opt = "WithConsumer ''gpiomon''" and g = lo_consumer and x = "''gpiomon''"]
  have 5: "lo_consumer (lineOptions ?O [2]
        ([WithConsumer ''a''] @ WithConsumer ''gpiomon'' # [AsInput]))
       = ''gpiomon''"
    by (rule C[THEN conjunct2, THEN conjunct2, THEN conjunct2, THEN conjunct2, THEN conjunct2,
        THEN conjunct1, THEN mp, OF wc])
  note D = A[where k = kernel0, THEN conjunct2, THEN conjunct2, THEN conjunct2, THEN conjunct2,
      THEN conjunct2, THEN conjunct2]
  have 6: "fst (snd ?R) = ?P" by (rule D[THEN conjunct1])
  note E = D[THEN conjunct2, THEN mp, OF r]
  have 7: "Bias (l_config (projr (snd (snd ?R)))) = LineBiasPullUp"
    using E[THEN conjunct2, THEN conjunct1] 1 by simp
  have 8: "l_abi (projr (snd (snd ?R))) = 2"
    using E[THEN conjunct1] 3 by simp
  have 9: "take 1 (new_calls kernel0 (fst ?R))
       = [IoctlGetLine 3 (lineRequest (lineOptions ?P [2] [AsInput]) [2])]"
    using E[THEN conjunct2, THEN conjunct2, THEN conjunct2, THEN conjunct2, THEN conjunct1,
        THEN mp, OF 3] d(4) by simp
  from d(3) 1 2 3 d(5) 4 5 6 i 7 8 9 show ?thesis by blast
qed


section \<open>Opening a chip\<close>

lemma uint_pos_iff: "0 < uint (w::32 word) \<longleftrightarrow> uint w \<noteq> 0"
  using uint_ge_0[of w] by arith

lemma NewChip_success_shape:
  assumes "NewChip k name opts = (k1, Inr c)" and "co_abi (chipOptions k opts) = 0"
  shows "c_f c = k_nextfd k" and "\<not> c_closed c"
    and "c_lines c = uint (ci_Lines (k_chipinfo k))"
    and "co_abi (c_options c)
          = (if 0 < c_lines c \<and> k_res k (IoctlGetLineInfoV2 (k_nextfd k) 0) = None then 2 else 1)"
    and "k_calls k1 = k_calls k @ [SysOpen (nameToPath name), IoctlGetChipInfo (k_nextfd k)]
            @ (if 0 < c_lines c then [IoctlGetLineInfoV2 (k_nextfd k) 0] else [])"
    and "c_iw c = None" and "c_ich c = Map.empty"
  using assms
  unfolding NewChip_def IsChip_def Let_def Chip_LineInfo_def uapi_newfd_def uapi_GetChipInfo_def
    uapi_GetLineInfoV2_def kerr_def klog_def
  by (auto simp: uint_pos_iff split: option.splits if_splits prod.splits sum.splits)

lemma LineInfo_new_calls:
  assumes "\<not> c_closed c" and "0 \<le> off" and "off < c_lines c"
  shows "new_calls k (fst (Chip_LineInfo k c off))
           = [if co_abi (c_options c) = 1 then IoctlGetLineInfo (c_f c) off
              else IoctlGetLineInfoV2 (c_f c) off]"
  using assms
  by (auto simp: Chip_LineInfo_def uapi_GetLineInfo_def uapi_GetLineInfoV2_def new_calls_def
      klog_def split: option.splits)

lemma WatchLineInfo_new_calls:
  assumes "\<not> c_closed c" and "c_iw c = None"
  shows "new_calls k (fst (Chip_WatchLineInfo k c off h))
           = NewInfoWatcher (c_f c) (co_abi (c_options c))
             # (if k_res k (NewInfoWatcher (c_f c) (co_abi (c_options c))) = None
                then [watchCall c off] else [])"
  using assms
  by (auto simp: Chip_WatchLineInfo_def Chip_createInfoWatcher_def uapi_plain_def kerr_def
      uapi_WatchLineInfo_def uapi_WatchLineInfoV2_def watchCall_def klog_def new_calls_def
      split: option.splits)

text \<open>
  C9. When \<open>NewChip\<close> succeeds and no chip option chose an ABI version, the cached
  version is 1 or 2; it is 2 exactly when the chip has a line and the kernel answers the
  ABI v2 info query for offset 0 with success; the calls of the open are the open, the
  chip-info query and, on a chip with a line, that one probe. From then on
  \<open>Chip.LineInfo\<close> issues the query of the cached version and nothing else;
  \<open>Chip.WatchLineInfo\<close> starts the info watcher and issues the watch call of the
  cached version; a request whose options leave the ABI alone is made under the cached
  version; and a request for at most \<open>LinesMax\<close> lines in range issues the calls of its
  effective version: the ABI v2 line request first for version 2, and otherwise the one
  ABI v1 handle request when no event handler was given, or the ABI v1 event request of
  the first offset first when one was. No request issues a request call of the other
  generation.
\<close>

theorem NewChip_probes_abi:
  assumes "NewChip k name opts = (k1, Inr c)" and "co_abi (chipOptions k opts) = 0"
  shows "(co_abi (c_options c) = 1 \<or> co_abi (c_options c) = 2)
     \<and> (co_abi (c_options c) = 2
          \<longleftrightarrow> 0 < c_lines c \<and> k_res k (IoctlGetLineInfoV2 (c_f c) 0) = None)
     \<and> new_calls k k1 = [SysOpen (nameToPath name), IoctlGetChipInfo (c_f c)]
            @ (if 0 < c_lines c then [IoctlGetLineInfoV2 (c_f c) 0] else [])
     \<and> (\<forall>k' off. 0 \<le> off \<and> off < c_lines c
          \<longrightarrow> new_calls k' (fst (Chip_LineInfo k' c off))
              = [if co_abi (c_options c) = 2 then IoctlGetLineInfoV2 (c_f c) off
                 else IoctlGetLineInfo (c_f c) off])
     \<and> (\<forall>offs lopts. (\<forall>opt \<in> set lopts. \<forall>lo. lo_abi (opt lo) = lo_abi lo)
          \<longrightarrow> lo_abi (lineOptions c offs lopts) = co_abi (c_options c))
     \<and> (\<forall>k' offs lopts.
          list_all (request_call (lineOptions c offs lopts))
            (new_calls k' (fst (Chip_RequestLines k' c offs lopts))))
     \<and> (\<forall>k' offs lopts.
          (\<forall>off \<in> set offs. 0 \<le> off \<and> off < c_lines c) \<and> length offs \<le> LinesMax
          \<longrightarrow> (lo_abi (lineOptions c offs lopts) = 2
                 \<longrightarrow> take 1 (new_calls k' (fst (Chip_RequestLines k' c offs lopts)))
                     = [IoctlGetLine (c_f c) (lineRequest (lineOptions c offs lopts) offs)])
              \<and> (lo_abi (lineOptions c offs lopts) \<noteq> 2 \<and> lo_eh (lineOptions c offs lopts) = None
                 \<longrightarrow> new_calls k' (fst (Chip_RequestLines k' c offs lopts))
                     = [IoctlGetLineHandle (c_f c) (handleRequest (lineOptions c offs lopts) offs)])
              \<and> (lo_abi (lineOptions c offs lopts) \<noteq> 2 \<and> lo_eh (lineOptions c offs lopts) \<noteq> None
                   \<and> offs \<noteq> []
                 \<longrightarrow> take 1 (new_calls k' (fst (Chip_RequestLines k' c offs lopts)))
                     = [IoctlGetLineEvent (c_f c)
                          (eventRequest (lineOptions c offs lopts) (hd offs))]))
     \<and> (\<forall>k' off h.
          new_calls k' (fst (Chip_WatchLineInfo k' c off h))
            = NewInfoWatcher (c_f c) (co_abi (c_options c))
              # (if k_res k' (NewInfoWatcher (c_f c) (co_abi (c_options c))) = None
                 then [watchCall c off] else []))"
proof -
  note s = NewChip_success_shape[OF assms]
  have 1: "co_abi (c_options c) = 1 \<or> co_abi (c_options c) = 2"
    using s(4) by (simp split: if_splits)
  have 2: "co_abi (c_options c) = 2
          \<longleftrightarrow> 0 < c_lines c \<and> k_res k (IoctlGetLineInfoV2 (c_f c) 0) = None"
    using s(4) s(1) by (simp split: if_splits)
  have 3: "new_calls k k1 = [SysOpen (nameToPath name), IoctlGetChipInfo (c_f c)]
            @ (if 0 < c_lines c then [IoctlGetLineInfoV2 (c_f c) 0] else [])"
    using s(5) s(1) by (simp add: new_calls_def)
  have 4: "new_calls k' (fst (Chip_LineInfo k' c off))
              = [if co_abi (c_options c) = 2 then IoctlGetLineInfoV2 (c_f c) off
                 else IoctlGetLineInfo (c_f c) off]"
    if "0 \<le> off \<and> off < c_lines c" for k' off
    using LineInfo_new_calls[OF s(2), of off k'] that 1 by auto
  have 7: "(lo_abi (lineOptions c offs lopts) = 2
                 \<longrightarrow> take 1 (new_calls k' (fst (Chip_RequestLines k' c offs lopts)))
                     = [IoctlGetLine (c_f c) (lineRequest (lineOptions c offs lopts) offs)])
              \<and> (lo_abi (lineOptions c offs lopts) \<noteq> 2 \<and> lo_eh (lineOptions c offs lopts) = None
                 \<longrightarrow> new_calls k' (fst (Chip_RequestLines k' c offs lopts))
                     = [IoctlGetLineHandle (c_f c) (handleRequest (lineOptions c offs lopts) offs)])
              \<and> (lo_abi (lineOptions c offs lopts) \<noteq> 2 \<and> lo_eh (lineOptions c offs lopts) \<noteq> None
                   \<and> offs \<noteq> []
                 \<longrightarrow> take 1 (new_calls k' (fst (Chip_RequestLines k' c offs lopts)))
                     = [IoctlGetLineEvent (c_f c)
                          (eventRequest (lineOptions c offs lopts) (hd offs))])"
    if h: "(\<forall>off \<in> set offs. 0 \<le> off \<and> off < c_lines c) \<and> length offs \<le> LinesMax"
    for k' offs lopts
  proof -
    from h have r: "\<forall>off \<in> set offs. 0 \<le> off \<and> off < c_lines c"
      and n: "length offs \<le> LinesMax" "length offs \<le> HandlesMax"
      by (simp_all add: LinesMax_def HandlesMax_def)
    note d = RequestLines_dispatch[OF r, of lopts k']
    from d(1)[OF _ n(1)] d(2)[OF _ _ n(2)] d(3) show ?thesis by blast
  qed
  have 8: "new_calls k' (fst (Chip_WatchLineInfo k' c off h))
            = NewInfoWatcher (c_f c) (co_abi (c_options c))
              # (if k_res k' (NewInfoWatcher (c_f c) (co_abi (c_options c))) = None
                 then [watchCall c off] else [])" for k' off h
    by (rule WatchLineInfo_new_calls[OF s(2) s(6)])
  from 1 2 3 4 lineOptions_keeps_abi RequestLines_calls 7 8 show ?thesis by blast
qed


theorem NewChip_probes_abi_witness:
  "co_abi (chipOptions kernel0 []) = 0
   \<and> \<not> isl (snd (NewChip kernel0 ''gpiochip0'' []))
   \<and> co_abi (c_options (projr (snd (NewChip kernel0 ''gpiochip0'' [])))) = 2
   \<and> new_calls kernel0 (fst (NewChip kernel0 ''gpiochip0'' []))
       = [SysOpen ''/dev/gpiochip0'', IoctlGetChipInfo 4, IoctlGetLineInfoV2 4 0]
   \<and> co_abi (chipOptions kernel_v1 []) = 0
   \<and> \<not> isl (snd (NewChip kernel_v1 ''gpiochip0'' []))
   \<and> co_abi (c_options (projr (snd (NewChip kernel_v1 ''gpiochip0'' [])))) = 1
   \<and> new_calls kernel_v1 (fst (NewChip kernel_v1 ''gpiochip0'' []))
       = [SysOpen ''/dev/gpiochip0'', IoctlGetChipInfo 4, IoctlGetLineInfoV2 4 0]
   \<and> take 1 (new_calls kernel0 (fst (Chip_RequestLines kernel0
        (projr (snd (NewChip kernel0 ''gpiochip0'' []))) [2] [WithConsumer ''gpiomon''])))
       = [IoctlGetLine 4 (lineRequest (lineOptions
            (projr (snd (NewChip kernel0 ''gpiochip0'' []))) [2] [WithConsumer ''gpiomon'']) [2])]
   \<and> new_calls kernel_v1 (fst (Chip_RequestLines kernel_v1
        (projr (snd (NewChip kernel_v1 ''gpiochip0'' []))) [2] [WithConsumer ''gpiomon'']))
       = [IoctlGetLineHandle 4 (handleRequest (lineOptions
            (projr (snd (NewChip kernel_v1 ''gpiochip0'' []))) [2] [WithConsumer ''gpiomon'']) [2])]"
proof -
  let ?R0 = "NewChip kernel0 ''gpiochip0'' []"
  let ?R1 = "NewChip kernel_v1 ''gpiochip0'' []"
  let ?C0 = "projr (snd ?R0)"
  let ?C1 = "projr (snd ?R1)"
  have o0: "co_abi (chipOptions kernel0 []) = 0" and o1: "co_abi (chipOptions kernel_v1 []) = 0"
    by (simp_all add: chipOptions_def)
  have i0: "\<not> isl (snd ?R0)" and f0: "c_f ?C0 = 4" and n0: "c_lines ?C0 = 8"
    by (simp_all add: NewChip_def IsChip_def nameToPath_def chipOptions_def uapi_newfd_def
        uapi_GetChipInfo_def Chip_LineInfo_def uapi_GetLineInfoV2_def kerr_def klog_def
        kernel0_def BytesToString_def Let_def)
  have i1: "\<not> isl (snd ?R1)" and f1: "c_f ?C1 = 4" and n1: "c_lines ?C1 = 8"
    by (simp_all add: NewChip_def IsChip_def nameToPath_def chipOptions_def uapi_newfd_def
        uapi_GetChipInfo_def Chip_LineInfo_def uapi_GetLineInfoV2_def kerr_def klog_def
        kernel_v1_def kernel0_def BytesToString_def Let_def)
  have r0: "?R0 = (fst ?R0, Inr ?C0)" using i0 by (simp add: prod_eq_iff)
  have r1: "?R1 = (fst ?R1, Inr ?C1)" using i1 by (simp add: prod_eq_iff)
  have k0: "k_res kernel0 (IoctlGetLineInfoV2 4 0) = None"
    and k1: "k_res kernel_v1 (IoctlGetLineInfoV2 4 0) = Some 22"
    by (simp_all add: kernel_v1_def kernel0_def)
  have p: "nameToPath ''gpiochip0'' = ''/dev/gpiochip0''" by (simp add: nameToPath_def)
  note t0 = NewChip_probes_abi[OF r0 o0, unfolded f0 n0 p]
  note t1 = NewChip_probes_abi[OF r1 o1, unfolded f1 n1 p]
  have a0: "co_abi (c_options ?C0) = 2"
    using t0[THEN conjunct2, THEN conjunct1] by (simp add: k0)
  have c0: "new_calls kernel0 (fst ?R0)
       = [SysOpen ''/dev/gpiochip0'', IoctlGetChipInfo 4, IoctlGetLineInfoV2 4 0]"
    using t0[THEN conjunct2, THEN conjunct2, THEN conjunct1] by simp
  have "co_abi (c_options ?C1) \<noteq> 2"
    using t1[THEN conjunct2, THEN conjunct1] by (simp add: k1)
  with t1[THEN conjunct1] have a1: "co_abi (c_options ?C1) = 1"
    by blast
  have c1: "new_calls kernel_v1 (fst ?R1)
       = [SysOpen ''/dev/gpiochip0'', IoctlGetChipInfo 4, IoctlGetLineInfoV2 4 0]"
    using t1[THEN conjunct2, THEN conjunct2, THEN conjunct1] by simp
  have ka: "\<forall>opt \<in> set [WithConsumer ''gpiomon'']. \<forall>lo. lo_abi (opt lo) = lo_abi lo"
    by (simp add: WithConsumer_def)
  have rg: "(\<forall>off \<in> set [2]. 0 \<le> off \<and> off < (8::int)) \<and> length [2::int] \<le> LinesMax"
    by (simp add: LinesMax_def)
  note u0 = t0[THEN conjunct2, THEN conjunct2, THEN conjunct2, THEN conjunct2]
  note u1 = t1[THEN conjunct2, THEN conjunct2, THEN conjunct2, THEN conjunct2]
  have l0: "lo_abi (lineOptions ?C0 [2] [WithConsumer ''gpiomon'']) = 2"
    using u0[THEN conjunct1, THEN spec, THEN spec, THEN mp, OF ka] a0 by simp
  have l1: "lo_abi (lineOptions ?C1 [2] [WithConsumer ''gpiomon'']) \<noteq> 2
      \<and> lo_eh (lineOptions ?C1 [2] [WithConsumer ''gpiomon'']) = None"
    using u1[THEN conjunct1, THEN spec, THEN spec, THEN mp, OF ka] a1
    by (simp add: lineOptions_def defaultLineOptions_def WithConsumer_def Let_def)
  have d0: "take 1 (new_calls kernel0 (fst (Chip_RequestLines kernel0 ?C0 [2]
             [WithConsumer ''gpiomon''])))
       = [IoctlGetLine 4 (lineRequest (lineOptions ?C0 [2] [WithConsumer ''gpiomon'']) [2])]"
    by (rule u0[THEN conjunct2, THEN conjunct2, THEN conjunct1, THEN spec, THEN spec, THEN spec,
          THEN mp, OF rg, THEN conjunct1, THEN mp, OF l0])
  have d1: "new_calls kernel_v1 (fst (Chip_RequestLines kernel_v1 ?C1 [2]
             [WithConsumer ''gpiomon'']))
       = [IoctlGetLineHandle 4 (handleRequest (lineOptions ?C1 [2] [WithConsumer ''gpiomon'']) [2])]"
    by (rule u1[THEN conjunct2, THEN conjunct2, THEN conjunct1, THEN spec, THEN spec, THEN spec,
          THEN mp, OF rg, THEN conjunct2, THEN conjunct1, THEN mp, OF l1])
  from o0 o1 i0 i1 a0 a1 c0 c1 d0 d1 show ?thesis by blast
qed

section \<open>Watching line info\<close>

lemma WatchLineInfo_keeps_invariant:
  assumes "c_iw c = None \<longrightarrow> c_ich c = Map.empty"
    and "Chip_WatchLineInfo k c off lich = (k1, c1, r)"
  shows "c_iw c1 = None \<longrightarrow> c_ich c1 = Map.empty"
  using assms
  by (auto simp: Chip_WatchLineInfo_def Chip_createInfoWatcher_def uapi_plain_def
      uapi_WatchLineInfo_def uapi_WatchLineInfoV2_def
      split: if_splits option.splits prod.splits)

lemma UnwatchLineInfo_keeps_invariant:
  assumes "c_iw c = None \<longrightarrow> c_ich c = Map.empty"
    and "Chip_UnwatchLineInfo k c off = (k1, c1, r)"
  shows "c_iw c1 = None \<longrightarrow> c_ich c1 = Map.empty"
  using assms
  by (auto simp: Chip_UnwatchLineInfo_def uapi_UnwatchLineInfo_def uapi_plain_def
      split: if_splits prod.splits)

text \<open>
  C10. On an open chip whose handler map is empty as long as it has no info watcher (so
  it is after \<open>NewChip\<close>, and so every watch and unwatch leaves it),
  \<open>Chip.WatchLineInfo\<close> that fails leaves the handler map as it was, and one that
  succeeds has stored the handler under the offset after the kernel accepted the watch
  call. An info watcher the chip had stays; one created by the call stays attached
  whatever the watch call answers: when the watcher is there and the kernel refuses the
  watch call, the result is the kernel's error, the map is unchanged and the watcher is
  attached.
\<close>

theorem WatchLineInfo_registers_on_success_only:
  assumes inv: "c_iw c = None \<longrightarrow> c_ich c = Map.empty"
    and "open": "\<not> c_closed c"
    and w: "Chip_WatchLineInfo k c off lich = (k1, c1, r)"
  shows "(isl r \<longrightarrow> c_ich c1 = c_ich c)
     \<and> (\<not> isl r \<longrightarrow> c_ich c1 = (c_ich c)(off \<mapsto> lich) \<and> c_iw c1 \<noteq> None
            \<and> k_res k (watchCall c off) = None)
     \<and> (c_iw c \<noteq> None \<longrightarrow> c_iw c1 = c_iw c)
     \<and> (c_iw c = None \<and> k_res k (NewInfoWatcher (c_f c) (co_abi (c_options c))) = None
          \<longrightarrow> c_iw c1 = Some (InfoWatcher (c_f c) (co_abi (c_options c))))
     \<and> ((c_iw c \<noteq> None \<or> k_res k (NewInfoWatcher (c_f c) (co_abi (c_options c))) = None)
          \<and> k_res k (watchCall c off) \<noteq> None
          \<longrightarrow> r = Inl (Errno (the (k_res k (watchCall c off)))) \<and> c_ich c1 = c_ich c
              \<and> c_iw c1 \<noteq> None)"
  using assms
  by (auto simp: Chip_WatchLineInfo_def Chip_createInfoWatcher_def uapi_plain_def kerr_def
      uapi_WatchLineInfo_def uapi_WatchLineInfoV2_def watchCall_def klog_def
      split: if_splits option.splits prod.splits)

theorem WatchLineInfo_registers_on_success_only_witness:
  "(c_iw (chip8 2) = None \<and> c_ich (chip8 2) = Map.empty) \<and> \<not> c_closed (chip8 2)
   \<and> k_res kernel_nowatch (watchCall (chip8 2) 3) = Some 22
   \<and> snd (snd (Chip_WatchLineInfo kernel_nowatch (chip8 2) 3 (Some 5))) = Inl (Errno 22)
   \<and> c_ich (fst (snd (Chip_WatchLineInfo kernel_nowatch (chip8 2) 3 (Some 5)))) = Map.empty
   \<and> c_iw (fst (snd (Chip_WatchLineInfo kernel_nowatch (chip8 2) 3 (Some 5))))
       = Some (InfoWatcher 3 2)
   \<and> \<not> isl (snd (snd (Chip_WatchLineInfo kernel0 (chip8 2) 3 (Some 5))))
   \<and> c_ich (fst (snd (Chip_WatchLineInfo kernel0 (chip8 2) 3 (Some 5)))) 3 = Some (Some 5)"
proof -
  let ?W = "Chip_WatchLineInfo kernel_nowatch (chip8 2) 3 (Some 5)"
  let ?V = "Chip_WatchLineInfo kernel0 (chip8 2) 3 (Some 5)"
  have inv: "c_iw (chip8 2) = None \<longrightarrow> c_ich (chip8 2) = Map.empty"
    and c: "c_iw (chip8 2) = None" "c_ich (chip8 2) = Map.empty" "c_f (chip8 2) = 3"
      "co_abi (c_options (chip8 2)) = 2"
    and op: "\<not> c_closed (chip8 2)"
    by (simp_all add: chip8_def)
  have w: "?W = (fst ?W, fst (snd ?W), snd (snd ?W))" and v: "?V = (fst ?V, fst (snd ?V), snd (snd ?V))"
    by simp_all
  have kw: "k_res kernel_nowatch (watchCall (chip8 2) 3) = Some 22"
    and kn: "k_res kernel_nowatch (NewInfoWatcher 3 2) = None"
    by (simp_all add: kernel_nowatch_def kernel0_def watchCall_def chip8_def)
  have iv: "\<not> isl (snd (snd ?V))"
    by (simp add: Chip_WatchLineInfo_def Chip_createInfoWatcher_def uapi_plain_def kerr_def
        uapi_WatchLineInfoV2_def klog_def kernel0_def chip8_def)
  from WatchLineInfo_registers_on_success_only[OF inv op w]
       WatchLineInfo_registers_on_success_only[OF inv op v] c op kw kn iv
  show ?thesis by simp
qed

end
